theory Spec2Isabelle
  imports Complex_Main "HOL-Library.Word"
begin

section \<open>Text, bytes and exceptions\<close>

text \<open>
  A Python \<open>str\<close> is a sequence of Unicode code points, so it is modelled as a list of
  natural numbers (the code points), not as a list of 8-bit characters: \<open>strip\<close> and
  the regular expression of \<open>sanitize_filename\<close> work code point by code point.
  \<open>u\<close> writes an ASCII literal of the source as such a list; the few non-ASCII
  characters of the source are written as their code points.
\<close>

type_synonym ustr = "nat list"

type_synonym byte = "8 word"

definition u :: "string \<Rightarrow> ustr" where
  "u s = map of_char s"

text \<open>
  \<open>str.isspace\<close> for one code point: the white space of CPython's Unicode database
  (\<open>_PyUnicode_IsWhitespace\<close>), which is what \<open>str.strip()\<close> removes.
\<close>

definition isspace :: "nat \<Rightarrow> bool" where
  "isspace c \<longleftrightarrow>
     (0x09 \<le> c \<and> c \<le> 0x0D) \<or> (0x1C \<le> c \<and> c \<le> 0x20) \<or> c = 0x85 \<or> c = 0xA0 \<or>
     c = 0x1680 \<or> (0x2000 \<le> c \<and> c \<le> 0x200A) \<or> c = 0x2028 \<or> c = 0x2029 \<or>
     c = 0x202F \<or> c = 0x205F \<or> c = 0x3000"

text \<open>\<open>s.strip()\<close>: leading and trailing white space removed.\<close>

definition strip :: "ustr \<Rightarrow> ustr" where
  "strip s = rev (dropWhile isspace (rev (dropWhile isspace s)))"

text \<open>\<open>s.endswith(suffix)\<close>.\<close>

definition endswith :: "ustr \<Rightarrow> ustr \<Rightarrow> bool" where
  "endswith s suffix \<longleftrightarrow>
     length suffix \<le> length s \<and> drop (length s - length suffix) s = suffix"

section \<open>Helpers of the application\<close>

subsection \<open>\<open>sanitize_filename\<close>\<close>

text \<open>
  The character class \<open>[a-zA-Z0-9_\-\.]\<close> of the regular expression: ASCII letters,
  ASCII digits, underscore, hyphen and dot. The pattern is a \<open>str\<close> pattern without
  flags, so the ranges are ranges of code points.
\<close>

definition allowed :: "nat \<Rightarrow> bool" where
  "allowed c \<longleftrightarrow>
     (0x61 \<le> c \<and> c \<le> 0x7A) \<or> (0x41 \<le> c \<and> c \<le> 0x5A) \<or> (0x30 \<le> c \<and> c \<le> 0x39) \<or>
     c = 0x5F \<or> c = 0x2D \<or> c = 0x2E"

text \<open>
  \<open>re.sub(r"[^a-zA-Z0-9_\-\.]", "_", name)\<close>: the pattern matches exactly one code
  point outside the class, so every such code point becomes one underscore.
\<close>

definition re_sub_underscore :: "ustr \<Rightarrow> ustr" where
  "re_sub_underscore name = map (\<lambda>c. if allowed c then c else of_char CHR ''_'') name"

text \<open>
  \<^verbatim>\<open>
  def sanitize_filename(name: str) -> str:
      name = (name or "").strip()
      if not name:
          return "app.py"
      name = re.sub(r"[^a-zA-Z0-9_\-\.]", "_", name)
      if not name.endswith(".py"):
          name += ".py"
      return name
  \<close>
  On a \<open>str\<close>, \<open>name or ""\<close> is \<open>name\<close> itself (the empty string is the only falsy
  one).
\<close>

definition sanitize_filename :: "ustr \<Rightarrow> ustr" where
  "sanitize_filename name =
     (let name1 = strip name in
      if name1 = [] then u ''app.py''
      else
        let name2 = re_sub_underscore name1 in
        if \<not> endswith name2 (u ''.py'') then name2 @ u ''.py'' else name2)"


section \<open>What the program relies on: codec, exceptions, clock, paths\<close>

subsection \<open>UTF-8\<close>

text \<open>
  \<open>open(path, "w", encoding="utf-8")\<close> writes text as UTF-8 with strict error
  handling. \<open>utf8_char\<close> is the encoding of one code point: one to four bytes, and no
  encoding for a surrogate (\<open>U+D800\<close> to \<open>U+DFFF\<close>, which a Python \<open>str\<close> can hold
  and the codec refuses with \<open>UnicodeEncodeError\<close>) or for a number above \<open>U+10FFFF\<close>
  (which no \<open>str\<close> holds). The model is of a POSIX system, where text mode writes
  \<open>\n\<close> unchanged.
\<close>

definition surrogate :: "nat \<Rightarrow> bool" where
  "surrogate c \<longleftrightarrow> 0xD800 \<le> c \<and> c \<le> 0xDFFF"

definition utf8_char :: "nat \<Rightarrow> byte list option" where
  "utf8_char c =
     (if c < 0x80 then Some [of_nat c]
      else if c < 0x800 then Some [of_nat (0xC0 + c div 0x40), of_nat (0x80 + c mod 0x40)]
      else if c < 0x10000 then
        (if surrogate c then None
         else Some [of_nat (0xE0 + c div 0x1000), of_nat (0x80 + c div 0x40 mod 0x40),
                    of_nat (0x80 + c mod 0x40)])
      else if c < 0x110000 then
        Some [of_nat (0xF0 + c div 0x40000), of_nat (0x80 + c div 0x1000 mod 0x40),
              of_nat (0x80 + c div 0x40 mod 0x40), of_nat (0x80 + c mod 0x40)]
      else None)"

fun utf8_encode :: "ustr \<Rightarrow> byte list option" where
  "utf8_encode [] = Some []"
| "utf8_encode (c # cs) =
     (case utf8_char c of
        None \<Rightarrow> None
      | Some bs \<Rightarrow> map_option ((@) bs) (utf8_encode cs))"

text \<open>
  Reading a file back as UTF-8 text: the strict decoder, which refuses stray
  continuation bytes, truncated sequences, overlong forms, surrogates and values above
  \<open>U+10FFFF\<close>. \<open>trailing\<close> is the number of continuation bytes a lead byte announces
  (4 stands for "not a lead byte"), \<open>lead_bits\<close> its payload, \<open>least_code\<close> the
  smallest code point that needs that many continuation bytes. The source never reads
  an artifact back; the decoder states what "reading the file at the returned path"
  means.
\<close>

definition continuation :: "byte \<Rightarrow> bool" where
  "continuation b \<longleftrightarrow> 0x80 \<le> unat b \<and> unat b < 0xC0"

definition trailing :: "byte \<Rightarrow> nat" where
  "trailing b = (if unat b < 0x80 then 0 else if unat b < 0xC0 then 4 else if unat b < 0xE0 then 1
     else if unat b < 0xF0 then 2 else if unat b < 0xF8 then 3 else 4)"

definition lead_bits :: "byte \<Rightarrow> nat" where
  "lead_bits b = (if unat b < 0x80 then unat b else if unat b < 0xE0 then unat b - 0xC0
     else if unat b < 0xF0 then unat b - 0xE0 else unat b - 0xF0)"

definition least_code :: "nat \<Rightarrow> nat" where
  "least_code k = (if k = 0 then 0 else if k = 1 then 0x80 else if k = 2 then 0x800 else 0x10000)"

function utf8_decode :: "byte list \<Rightarrow> ustr option" where
  "utf8_decode [] = Some []"
| "utf8_decode (b # bs) =
     (let k = trailing b in
      if 3 < k \<or> length bs < k \<or> \<not> list_all continuation (take k bs) then None
      else
        let c = foldl (\<lambda>a x. a * 0x40 + (unat x - 0x80)) (lead_bits b) (take k bs) in
        if c < least_code k \<or> surrogate c \<or> 0x110000 \<le> c then None
        else map_option ((#) c) (utf8_decode (drop k bs)))"
  by pat_completeness auto
termination
  by (relation "measure length") auto

subsection \<open>Exceptions\<close>

text \<open>
  An exception is its class and the text \<open>str(e)\<close> gives. Every class here derives
  from \<open>Exception\<close>, so \<open>except Exception\<close> catches each of them. A function that can
  raise returns \<open>exn + 'a\<close>, with \<open>Inl\<close> for the exception.
\<close>

datatype exn_class = OSError | UnicodeEncodeError | IndexError | AttributeError | APIError

datatype exn = Exn exn_class ustr

fun str_exn :: "exn \<Rightarrow> ustr" where
  "str_exn (Exn _ msg) = msg"

definition apostrophe :: ustr where
  "apostrophe = [0x27]"

subsection \<open>Clock\<close>

text \<open>What \<open>datetime.now()\<close> returns.\<close>

record datetime =
  year :: nat
  month :: nat
  day :: nat
  hour :: nat
  minute :: nat
  second :: nat
  microsecond :: nat

definition digit :: "nat \<Rightarrow> nat" where
  "digit n = of_char CHR ''0'' + n mod 10"

definition pad2 :: "nat \<Rightarrow> ustr" where
  "pad2 n = [digit (n div 10), digit n]"

definition pad4 :: "nat \<Rightarrow> ustr" where
  "pad4 n = [digit (n div 1000), digit (n div 100), digit (n div 10), digit n]"

text \<open>
  \<open>strftime("%Y%m%d_%H%M%S")\<close>, the stamp of a file name, and
  \<open>strftime("%Y-%m-%d %H:%M:%S")\<close>, the time of a history record. \<open>%Y\<close> is the year
  with century, four digits for every year \<open>datetime.now()\<close> can give on a running
  system; the other fields are zero-padded to two digits.
\<close>

definition strftime_stamp :: "datetime \<Rightarrow> ustr" where
  "strftime_stamp d =
     pad4 (year d) @ pad2 (month d) @ pad2 (day d) @ u ''_'' @
     pad2 (hour d) @ pad2 (minute d) @ pad2 (second d)"

definition strftime_time :: "datetime \<Rightarrow> ustr" where
  "strftime_time d =
     pad4 (year d) @ u ''-'' @ pad2 (month d) @ u ''-'' @ pad2 (day d) @ u '' '' @
     pad2 (hour d) @ u '':'' @ pad2 (minute d) @ u '':'' @ pad2 (second d)"

text \<open>The readings a clock can give: the ranges of the fields of a \<open>datetime\<close>.\<close>

definition valid_datetime :: "datetime \<Rightarrow> bool" where
  "valid_datetime d \<longleftrightarrow>
     1000 \<le> year d \<and> year d \<le> 9999 \<and> 1 \<le> month d \<and> month d \<le> 12 \<and>
     1 \<le> day d \<and> day d \<le> 31 \<and> hour d \<le> 23 \<and> minute d \<le> 59 \<and> second d \<le> 59"

subsection \<open>Paths\<close>

text \<open>
  \<open>os.path.join(a, b)\<close> and \<open>os.path.basename(p)\<close> of \<open>posixpath\<close>: an absolute
  second component replaces the first, otherwise the two are joined with one
  separator.
\<close>

definition sep :: nat where
  "sep = of_char CHR ''/''"

definition os_path_join :: "ustr \<Rightarrow> ustr \<Rightarrow> ustr" where
  "os_path_join a b =
     (if b \<noteq> [] \<and> hd b = sep then b
      else if a = [] \<or> last a = sep then a @ b
      else a @ [sep] @ b)"

definition os_path_basename :: "ustr \<Rightarrow> ustr" where
  "os_path_basename p = rev (takeWhile (\<lambda>c. c \<noteq> sep) (rev p))"

section \<open>The environment and the state of a session\<close>

subsection \<open>Remote services, file system faults\<close>

text \<open>
  A message of a chat request is its role and its content; a request is the model
  name, the messages and the temperature. Of the response the program reads
  \<open>resp.choices[0].message.content\<close> only, so a response is the list of its choices'
  contents, each of which the client library types as optional.
\<close>

type_synonym message = "ustr \<times> ustr"

type_synonym chat_request = "ustr \<times> message list \<times> rat"

type_synonym chat_completion = "ustr option list"

datatype request =
  Chat_request chat_request
| Transcription_request ustr "byte list"

text \<open>
  What can go wrong when a file is written: \<open>open\<close> raises and nothing changes, or the
  file is opened (created or truncated) and the write raises after some bytes.
\<close>

datatype fault = Open_fails exn | Write_fails exn nat

text \<open>
  The environment of one run of the script: everything the program does not decide.
  \<^item> \<open>BASE_DIR\<close>: \<open>os.path.abspath(".")\<close>;
  \<^item> \<open>clock n\<close>: the \<open>n\<close>-th reading of \<open>datetime.now()\<close>;
  \<^item> \<open>chat_completions_create\<close>: the outcome of \<open>client.chat.completions.create\<close>,
    an exception (network, authentication, quota, a response the client cannot parse)
    or a response;
  \<^item> \<open>audio_transcriptions_create\<close>: the outcome of
    \<open>client.audio.transcriptions.create\<close> on the bytes of the audio file, an
    exception or the \<open>text\<close> of the transcription;
  \<^item> \<open>write_fault\<close>, \<open>read_fault\<close>, \<open>remove_fault\<close>: the operating system's refusals,
    by path;
  \<^item> \<open>encode_error_text\<close>: the interpreter's wording of the \<open>UnicodeEncodeError\<close> for a
    text the codec refuses;
  \<^item> \<open>display_error\<close>: the exception Streamlit raises for a text it cannot put on the
    page.
\<close>

record env =
  BASE_DIR :: ustr
  clock :: "nat \<Rightarrow> datetime"
  chat_completions_create :: "chat_request \<Rightarrow> exn + chat_completion"
  audio_transcriptions_create :: "ustr \<Rightarrow> byte list \<Rightarrow> exn + ustr"
  write_fault :: "ustr \<Rightarrow> fault option"
  read_fault :: "ustr \<Rightarrow> exn option"
  remove_fault :: "ustr \<Rightarrow> exn option"
  encode_error_text :: "ustr \<Rightarrow> ustr"
  display_error :: "ustr \<Rightarrow> exn"

definition PROJECTS_DIR :: "env \<Rightarrow> ustr" where
  "PROJECTS_DIR e = os_path_join (BASE_DIR e) (u ''projects'')"

subsection \<open>The state\<close>

text \<open>
  A record of \<open>st.session_state.history\<close>: the dictionary with the keys \<open>mode\<close>,
  \<open>prompt\<close>, \<open>filename\<close>, \<open>path\<close> and \<open>time\<close>.
\<close>

record history_item =
  item_mode :: ustr
  item_prompt :: ustr
  item_filename :: ustr
  item_path :: ustr
  item_time :: ustr

text \<open>What a run puts on the page, in order.\<close>

datatype element =
  St_warning ustr
| St_error ustr
| St_success ustr
| St_subheader ustr
| St_code ustr ustr
| St_write ustr
| St_download_button ustr ustr ustr

text \<open>
  The state a run works on: the session's history, the files by path (the store is
  flat: a path is a key, directories are not modelled), the page, the requests sent to
  the remote services so far, and the number of clock readings so far.
\<close>

record world =
  history :: "history_item list"
  files :: "ustr \<rightharpoonup> byte list"
  page :: "element list"
  requests :: "request list"
  ticks :: nat

definition render :: "element \<Rightarrow> world \<Rightarrow> world" where
  "render el w = w\<lparr>page := page w @ [el]\<rparr>"

text \<open>
  Streamlit sends an element to the browser as a protocol buffer message, whose string
  fields hold UTF-8. A text that has no UTF-8 encoding (it holds a lone surrogate, which
  a Python \<open>str\<close> can) cannot be put on the page: the call raises and the page is left
  as it was. \<open>st_code\<close> and \<open>st_write\<close> are \<open>st.code(body, language=...)\<close> and
  \<open>st.write(body)\<close> for a text that comes from a remote service, the completion or the
  transcript. The other elements of the script carry its own constants, a path under
  \<open>BASE_DIR\<close> or the text of an exception; those are taken to be displayable and are put
  on the page with \<open>render\<close>.
\<close>

definition displayable :: "ustr \<Rightarrow> bool" where
  "displayable body \<longleftrightarrow> utf8_encode body \<noteq> None"

definition st_code :: "env \<Rightarrow> ustr \<Rightarrow> ustr \<Rightarrow> world \<Rightarrow> (exn + unit) \<times> world" where
  "st_code e body language w =
     (if displayable body then (Inr (), render (St_code body language) w)
      else (Inl (display_error e body), w))"

definition st_write :: "env \<Rightarrow> ustr \<Rightarrow> world \<Rightarrow> (exn + unit) \<times> world" where
  "st_write e body w =
     (if displayable body then (Inr (), render (St_write body) w)
      else (Inl (display_error e body), w))"

definition datetime_now :: "env \<Rightarrow> world \<Rightarrow> datetime \<times> world" where
  "datetime_now e w = (clock e (ticks w), w\<lparr>ticks := Suc (ticks w)\<rparr>)"

subsection \<open>File operations\<close>

text \<open>
  \<open>with open(path, "wb") as f: f.write(data)\<close>, and the same in text mode with
  \<open>encoding="utf-8"\<close>: there the whole text is encoded before a byte is written, so a
  text the codec refuses leaves the file opened and empty.
\<close>

definition write_bytes :: "env \<Rightarrow> ustr \<Rightarrow> byte list \<Rightarrow> world \<Rightarrow> (exn + unit) \<times> world" where
  "write_bytes e path bs w =
     (case write_fault e path of
        Some (Open_fails x) \<Rightarrow> (Inl x, w)
      | Some (Write_fails x k) \<Rightarrow> (Inl x, w\<lparr>files := (files w)(path \<mapsto> take k bs)\<rparr>)
      | None \<Rightarrow> (Inr (), w\<lparr>files := (files w)(path \<mapsto> bs)\<rparr>))"

definition write_text :: "env \<Rightarrow> ustr \<Rightarrow> ustr \<Rightarrow> world \<Rightarrow> (exn + unit) \<times> world" where
  "write_text e path content w =
     (case write_fault e path of
        Some (Open_fails x) \<Rightarrow> (Inl x, w)
      | Some (Write_fails x k) \<Rightarrow>
          (case utf8_encode content of
             None \<Rightarrow>
               (Inl (Exn UnicodeEncodeError (encode_error_text e content)),
                w\<lparr>files := (files w)(path \<mapsto> [])\<rparr>)
           | Some bs \<Rightarrow> (Inl x, w\<lparr>files := (files w)(path \<mapsto> take k bs)\<rparr>))
      | None \<Rightarrow>
          (case utf8_encode content of
             None \<Rightarrow>
               (Inl (Exn UnicodeEncodeError (encode_error_text e content)),
                w\<lparr>files := (files w)(path \<mapsto> [])\<rparr>)
           | Some bs \<Rightarrow> (Inr (), w\<lparr>files := (files w)(path \<mapsto> bs)\<rparr>)))"

text \<open>
  \<open>open(path, "rb")\<close> and reading the file through the handle, and \<open>os.remove(path)\<close>.
  For a path that does not exist both raise the interpreter's \<open>FileNotFoundError\<close>, an
  \<open>OSError\<close>; its text is given for a path that \<open>repr\<close> leaves unescaped.
\<close>

definition read_bytes :: "env \<Rightarrow> ustr \<Rightarrow> world \<Rightarrow> exn + byte list" where
  "read_bytes e path w =
     (case read_fault e path of
        Some x \<Rightarrow> Inl x
      | None \<Rightarrow>
          (case files w path of
             None \<Rightarrow>
               Inl (Exn OSError
                 (u ''[Errno 2] No such file or directory: '' @ apostrophe @ path @ apostrophe))
           | Some bs \<Rightarrow> Inr bs))"

definition os_remove :: "env \<Rightarrow> ustr \<Rightarrow> world \<Rightarrow> (exn + unit) \<times> world" where
  "os_remove e path w =
     (case remove_fault e path of
        Some x \<Rightarrow> (Inl x, w)
      | None \<Rightarrow>
          (case files w path of
             None \<Rightarrow>
               (Inl (Exn OSError
                  (u ''[Errno 2] No such file or directory: '' @ apostrophe @ path @ apostrophe)),
                w)
           | Some _ \<Rightarrow> (Inr (), w\<lparr>files := (files w)(path := None)\<rparr>)))"

text \<open>
  Reading an artifact back as text: the bytes at the path, decoded as UTF-8. Not part
  of the program; it states what a reader of the file gets.
\<close>

definition read_text :: "world \<Rightarrow> ustr \<Rightarrow> ustr option" where
  "read_text w path = (case files w path of None \<Rightarrow> None | Some bs \<Rightarrow> utf8_decode bs)"

section \<open>The helpers that act on the world\<close>

text \<open>
  \<^verbatim>\<open>
  def save_text(content: str, filename: str) -> str:
      ts = datetime.now().strftime("%Y%m%d_%H%M%S")
      safe = sanitize_filename(filename)
      path = os.path.join(PROJECTS_DIR, f"{ts}_{safe}")
      with open(path, "w", encoding="utf-8") as f:
          f.write(content)
      return path
  \<close>
\<close>

definition save_text :: "env \<Rightarrow> ustr \<Rightarrow> ustr \<Rightarrow> world \<Rightarrow> (exn + ustr) \<times> world" where
  "save_text e content filename w =
     (let (now, w1) = datetime_now e w;
          ts = strftime_stamp now;
          safe = sanitize_filename filename;
          path = os_path_join (PROJECTS_DIR e) (ts @ u ''_'' @ safe)
      in case write_text e path content w1 of
           (Inl x, w2) \<Rightarrow> (Inl x, w2)
         | (Inr _, w2) \<Rightarrow> (Inr path, w2))"

text \<open>
  \<^verbatim>\<open>
  def ask_model(messages, temperature=0.2):
      try:
          resp = client.chat.completions.create(
              model="gpt-3.5-turbo",
              messages=messages,
              temperature=temperature,
          )
          return resp.choices[0].message.content.strip()
      except Exception as e:
          return f"<warning sign> Error: {str(e)}"
  \<close>
  The warning marker of the source is the two code points \<open>U+26A0\<close> (warning sign) and
  \<open>U+FE0F\<close> (variation selector). \<open>ask_model_try\<close> is the body of the \<open>try\<close>:
  \<open>choices[0]\<close> of an empty list raises \<open>IndexError\<close>, \<open>.strip()\<close> of a missing
  content raises \<open>AttributeError\<close>. \<open>ask_model\<close> is given the type of a function that
  can raise, like every function that acts on the world; that it never returns an
  exception is a property to prove, not a matter of its type.
\<close>

definition warning_marker :: ustr where
  "warning_marker = [0x26A0, 0xFE0F]"

definition ask_model_try :: "env \<Rightarrow> message list \<Rightarrow> rat \<Rightarrow> exn + ustr" where
  "ask_model_try e messages temperature =
     (case chat_completions_create e (u ''gpt-3.5-turbo'', messages, temperature) of
        Inl x \<Rightarrow> Inl x
      | Inr resp \<Rightarrow>
          (case resp of
             [] \<Rightarrow> Inl (Exn IndexError (u ''list index out of range''))
           | None # _ \<Rightarrow>
               Inl (Exn AttributeError
                 (apostrophe @ u ''NoneType'' @ apostrophe @ u '' object has no attribute '' @
                  apostrophe @ u ''strip'' @ apostrophe))
           | Some content # _ \<Rightarrow> Inr (strip content)))"

definition ask_model :: "env \<Rightarrow> message list \<Rightarrow> rat \<Rightarrow> world \<Rightarrow> (exn + ustr) \<times> world" where
  "ask_model e messages temperature w =
     (let w1 = w\<lparr>requests := requests w @
                  [Chat_request (u ''gpt-3.5-turbo'', messages, temperature)]\<rparr>
      in case ask_model_try e messages temperature of
           Inl x \<Rightarrow> (Inr (warning_marker @ u '' Error: '' @ str_exn x), w1)
         | Inr text \<Rightarrow> (Inr text, w1))"

section \<open>The five modes\<close>

text \<open>
  Streamlit runs the script from top to bottom on every interaction, and the button
  that was pressed is the one whose block runs. Each block is modelled as a function
  from the widgets' values and the state to the way the block ended and the new state.
  \<open>with st.spinner(...)\<close> only decorates the page while a call is running and is left
  out.
\<close>

datatype outcome =
  Stopped
| Saved ustr
| Save_failed exn
| Not_saved
| Processing_failed exn
| Uncaught exn

text \<open>
  \<open>Stopped\<close>: \<open>st.stop()\<close> after a validation warning. \<open>Saved path\<close>: the \<open>try\<close> block
  ran to its end. \<open>Save_failed\<close>: the \<open>except\<close> branch around \<open>save_text\<close> ran.
  \<open>Not_saved\<close>: the Ask block ended without entering its saving branch.
  \<open>Processing_failed\<close>: the \<open>except\<close> branch of the Voice block ran. \<open>Uncaught\<close>: an
  exception left the block; in Build, Modify, Edit and Ask the text of the completion
  is shown before the \<open>try\<close> is entered, so an exception of that call is not handled.
\<close>

text \<open>
  The literal \<open>0.2\<close>: the default of \<open>ask_model\<close>'s \<open>temperature\<close>, which Build,
  Modify and Edit use, and the value Voice passes. Ask passes \<open>0.0\<close>.
\<close>

definition zero_point_two :: rat where
  "zero_point_two = 2 / 10"

text \<open>The pictographs of the page's messages, by code point.\<close>

definition check_mark :: ustr where
  "check_mark = [0x2705]"

definition cross_mark :: ustr where
  "cross_mark = [0x274C]"

definition memo :: ustr where
  "memo = [0x1F4DD]"

definition brain :: ustr where
  "brain = [0x1F9E0]"

definition speaking_head :: ustr where
  "speaking_head = [0x1F5E3, 0xFE0F]"

definition speech_balloon :: ustr where
  "speech_balloon = [0x1F4AC]"

text \<open>
  \<^verbatim>\<open>
  st.session_state.history.append({
      "mode": ..., "prompt": ..., "filename": ..., "path": path,
      "time": datetime.now().strftime("%Y-%m-%d %H:%M:%S")
  })
  \<close>
\<close>

definition history_append :: "env \<Rightarrow> ustr \<Rightarrow> ustr \<Rightarrow> ustr \<Rightarrow> ustr \<Rightarrow> world \<Rightarrow> world" where
  "history_append e mode prompt filename path w =
     (let (now, w1) = datetime_now e w
      in w1\<lparr>history := history w1 @
           [\<lparr>item_mode = mode, item_prompt = prompt, item_filename = filename,
             item_path = path, item_time = strftime_time now\<rparr>]\<rparr>)"

subsection \<open>Build Code\<close>

definition build_messages :: "ustr \<Rightarrow> message list" where
  "build_messages prompt =
     [(u ''system'',
       u ''You are a helpful software engineer. Return only runnable code unless asked otherwise.''),
      (u ''user'', prompt)]"

text \<open>
  \<^verbatim>\<open>
  if generate:
      if not prompt.strip():
          st.warning("Please describe what to build.")
          st.stop()
      messages = [...]
      code = ask_model(messages)
      st.subheader("<memo> Generated code")
      st.code(code, language="python")
      try:
          path = save_text(code, filename)
          st.success(f"<check mark> Code saved to {path}")
          st.download_button("Download code file", code, file_name=os.path.basename(path))
          st.session_state.history.append({"mode": "Build Code", "prompt": prompt, ...})
      except Exception as e:
          st.error(f"<cross mark> Failed to save file: {str(e)}")
  \<close>
\<close>

definition tab_build :: "env \<Rightarrow> ustr \<Rightarrow> ustr \<Rightarrow> world \<Rightarrow> outcome \<times> world" where
  "tab_build e prompt filename w =
     (if strip prompt = [] then
        (Stopped, render (St_warning (u ''Please describe what to build.'')) w)
      else
        (case ask_model e (build_messages prompt) zero_point_two w of
           (Inl x, w1) \<Rightarrow> (Uncaught x, w1)
         | (Inr code, w1) \<Rightarrow>
             (case st_code e code (u ''python'')
                     (render (St_subheader (memo @ u '' Generated code'')) w1) of
                (Inl x, w2) \<Rightarrow> (Uncaught x, w2)
              | (Inr _, w2) \<Rightarrow>
                  (case save_text e code filename w2 of
                     (Inl x, w3) \<Rightarrow>
                       (Save_failed x,
                        render (St_error (cross_mark @ u '' Failed to save file: '' @ str_exn x)) w3)
                   | (Inr path, w3) \<Rightarrow>
                       (Saved path,
                        history_append e (u ''Build Code'') prompt filename path
                          (render (St_download_button (u ''Download code file'') code
                                     (os_path_basename path))
                             (render (St_success (check_mark @ u '' Code saved to '' @ path))
                                w3)))))))"

subsection \<open>Modify Code\<close>

definition modify_messages :: "ustr \<Rightarrow> ustr \<Rightarrow> message list" where
  "modify_messages base_code change_request =
     [(u ''system'',
       u ''You are a senior software engineer. Transform the provided code according to the request. Return only the full updated code.''),
      (u ''user'',
       u ''Original code:\<newline>\<newline>'' @ base_code @
       u ''\<newline>\<newline>Change request:\<newline>'' @ change_request)]"

text \<open>
  \<^verbatim>\<open>
  if apply_changes:
      if not base_code.strip():
          st.warning("Please paste the code to modify.")
          st.stop()
      if not change_request.strip():
          st.warning("Please describe the changes you want.")
          st.stop()
      messages = [...]
      updated = ask_model(messages)
      st.subheader("<memo> Updated code")
      st.code(updated, language="python")
      try:
          path = save_text(updated, filename2)
          st.success(f"<check mark> Updated code saved to {path}")
          st.download_button("Download updated file", updated, file_name=os.path.basename(path))
          st.session_state.history.append({"mode": "Modify Code", "prompt": change_request, ...})
      except Exception as e:
          st.error(f"<cross mark> Failed to save file: {str(e)}")
  \<close>
\<close>

definition tab_modify :: "env \<Rightarrow> ustr \<Rightarrow> ustr \<Rightarrow> ustr \<Rightarrow> world \<Rightarrow> outcome \<times> world" where
  "tab_modify e base_code change_request filename2 w =
     (if strip base_code = [] then
        (Stopped, render (St_warning (u ''Please paste the code to modify.'')) w)
      else if strip change_request = [] then
        (Stopped, render (St_warning (u ''Please describe the changes you want.'')) w)
      else
        (case ask_model e (modify_messages base_code change_request) zero_point_two w of
           (Inl x, w1) \<Rightarrow> (Uncaught x, w1)
         | (Inr updated, w1) \<Rightarrow>
             (case st_code e updated (u ''python'')
                     (render (St_subheader (memo @ u '' Updated code'')) w1) of
                (Inl x, w2) \<Rightarrow> (Uncaught x, w2)
              | (Inr _, w2) \<Rightarrow>
                  (case save_text e updated filename2 w2 of
                     (Inl x, w3) \<Rightarrow>
                       (Save_failed x,
                        render (St_error (cross_mark @ u '' Failed to save file: '' @ str_exn x)) w3)
                   | (Inr path, w3) \<Rightarrow>
                       (Saved path,
                        history_append e (u ''Modify Code'') change_request filename2 path
                          (render (St_download_button (u ''Download updated file'') updated
                                     (os_path_basename path))
                             (render (St_success (check_mark @ u '' Updated code saved to '' @ path))
                                w3)))))))"

subsection \<open>Edit Anything\<close>

definition edit_messages :: "ustr \<Rightarrow> ustr \<Rightarrow> message list" where
  "edit_messages content edit_request =
     [(u ''system'',
       u ''You are a precise editor. Apply the requested changes faithfully. Return only the edited content.''),
      (u ''user'',
       u ''Content:\<newline>\<newline>'' @ content @
       u ''\<newline>\<newline>Edit request:\<newline>'' @ edit_request)]"

text \<open>
  \<^verbatim>\<open>
  if apply_edit:
      if not content.strip():
          st.warning("Please paste the content to edit.")
          st.stop()
      if not edit_request.strip():
          st.warning("Please describe the edit you want.")
          st.stop()
      messages = [...]
      edited = ask_model(messages)
      st.subheader("<memo> Edited content")
      st.code(edited, language="text")
      try:
          path = save_text(edited, filename3)
          st.success(f"<check mark> Edited content saved to {path}")
          st.download_button("Download edited content", edited, file_name=os.path.basename(path))
          st.session_state.history.append({"mode": "Edit Anything", "prompt": edit_request, ...})
      except Exception as e:
          st.error(f"<cross mark> Failed to save edited content: {str(e)}")
  \<close>
\<close>

definition tab_edit :: "env \<Rightarrow> ustr \<Rightarrow> ustr \<Rightarrow> ustr \<Rightarrow> world \<Rightarrow> outcome \<times> world" where
  "tab_edit e content edit_request filename3 w =
     (if strip content = [] then
        (Stopped, render (St_warning (u ''Please paste the content to edit.'')) w)
      else if strip edit_request = [] then
        (Stopped, render (St_warning (u ''Please describe the edit you want.'')) w)
      else
        (case ask_model e (edit_messages content edit_request) zero_point_two w of
           (Inl x, w1) \<Rightarrow> (Uncaught x, w1)
         | (Inr edited, w1) \<Rightarrow>
             (case st_code e edited (u ''text'')
                     (render (St_subheader (memo @ u '' Edited content'')) w1) of
                (Inl x, w2) \<Rightarrow> (Uncaught x, w2)
              | (Inr _, w2) \<Rightarrow>
                  (case save_text e edited filename3 w2 of
                     (Inl x, w3) \<Rightarrow>
                       (Save_failed x,
                        render (St_error (cross_mark @ u '' Failed to save edited content: '' @ str_exn x)) w3)
                   | (Inr path, w3) \<Rightarrow>
                       (Saved path,
                        history_append e (u ''Edit Anything'') edit_request filename3 path
                          (render (St_download_button (u ''Download edited content'') edited
                                     (os_path_basename path))
                             (render (St_success (check_mark @ u '' Edited content saved to '' @ path))
                                w3)))))))"

subsection \<open>Ask Anything\<close>

definition ask_messages :: "ustr \<Rightarrow> message list" where
  "ask_messages question =
     [(u ''system'',
       u ''You are a helpful, factual assistant. Provide clear, concise answers. If a calculation depends on live data, explain the method and give an approximate answer.''),
      (u ''user'', question)]"

text \<open>
  \<^verbatim>\<open>
  if ask:
      if not question.strip():
          st.warning("Please enter your question.")
          st.stop()
      messages = [...]
      answer = ask_model(messages, temperature=0.0)
      st.subheader("<brain> Answer")
      st.write(answer)
      if filename4.strip():
          try:
              path = save_text(answer, filename4)
              st.success(f"<check mark> Answer saved to {path}")
              st.download_button("Download answer", answer, file_name=os.path.basename(path))
              st.session_state.history.append({"mode": "Ask Anything", "prompt": question, ...})
          except Exception as e:
              st.error(f"<cross mark> Failed to save answer: {str(e)}")
  \<close>
\<close>

definition tab_ask :: "env \<Rightarrow> ustr \<Rightarrow> ustr \<Rightarrow> world \<Rightarrow> outcome \<times> world" where
  "tab_ask e question filename4 w =
     (if strip question = [] then
        (Stopped, render (St_warning (u ''Please enter your question.'')) w)
      else
        (case ask_model e (ask_messages question) 0 w of
           (Inl x, w1) \<Rightarrow> (Uncaught x, w1)
         | (Inr answer, w1) \<Rightarrow>
             (case st_write e answer (render (St_subheader (brain @ u '' Answer'')) w1) of
                (Inl x, w2) \<Rightarrow> (Uncaught x, w2)
              | (Inr _, w2) \<Rightarrow>
                  (if strip filename4 \<noteq> [] then
                     (case save_text e answer filename4 w2 of
                        (Inl x, w3) \<Rightarrow>
                          (Save_failed x,
                           render (St_error
                             (cross_mark @ u '' Failed to save answer: '' @ str_exn x)) w3)
                      | (Inr path, w3) \<Rightarrow>
                          (Saved path,
                           history_append e (u ''Ask Anything'') question filename4 path
                             (render (St_download_button (u ''Download answer'') answer
                                        (os_path_basename path))
                                (render (St_success (check_mark @ u '' Answer saved to '' @ path))
                                   w3))))
                   else (Not_saved, w2)))))"

subsection \<open>Voice\<close>

text \<open>An uploaded file: its name and its bytes.\<close>

type_synonym uploaded_file = "ustr \<times> byte list"

definition voice_messages :: "ustr \<Rightarrow> message list" where
  "voice_messages transcript =
     [(u ''system'',
       u ''You are a helpful assistant. Respond clearly and concisely to the user's transcribed voice request.''),
      (u ''user'', transcript)]"

definition temp_path_of :: "env \<Rightarrow> uploaded_file \<Rightarrow> ustr" where
  "temp_path_of e audio_file = os_path_join (PROJECTS_DIR e) (u ''temp_'' @ fst audio_file)"

definition combined_of :: "ustr \<Rightarrow> ustr \<Rightarrow> ustr" where
  "combined_of transcript reply =
     u ''Transcript:\<newline>'' @ transcript @ u ''\<newline>\<newline>Response:\<newline>'' @ reply"

text \<open>
  The body of the outer \<open>try\<close> of the Voice block:
  \<^verbatim>\<open>
  temp_path = os.path.join(PROJECTS_DIR, f"temp_{audio_file.name}")
  with open(temp_path, "wb") as f:
      f.write(audio_file.read())
  audio = open(temp_path, "rb")
  transcript = client.audio.transcriptions.create(model="whisper-1", file=audio).text.strip()
  st.subheader("<speaking head> Transcript")
  st.write(transcript)
  messages = [...]
  reply = ask_model(messages, temperature=0.2)
  st.subheader("<speech balloon> Response")
  st.write(reply)
  combined = f"Transcript:\n{transcript}\n\nResponse:\n{reply}"
  path = save_text(combined, filename5)
  st.success(f"<check mark> Transcript & response saved to {path}")
  st.download_button("Download transcript & response", combined, file_name=os.path.basename(path))
  st.session_state.history.append({"mode": "Voice", "prompt": transcript, ...})
  try:
      os.remove(temp_path)
  except Exception:
      pass
  \<close>
  The removal of the temporary file is the last statement of the \<open>try\<close> body, not a
  \<open>finally\<close> clause: an exception raised before it skips it.
\<close>

definition tab_voice_try :: "env \<Rightarrow> uploaded_file \<Rightarrow> ustr \<Rightarrow> world \<Rightarrow> (exn + ustr) \<times> world" where
  "tab_voice_try e audio_file filename5 w =
     (let temp_path = temp_path_of e audio_file
      in case write_bytes e temp_path (snd audio_file) w of
           (Inl x, w1) \<Rightarrow> (Inl x, w1)
         | (Inr _, w1) \<Rightarrow>
             (case read_bytes e temp_path w1 of
                Inl x \<Rightarrow> (Inl x, w1)
              | Inr audio \<Rightarrow>
                  (let w2 = w1\<lparr>requests := requests w1 @
                               [Transcription_request (u ''whisper-1'') audio]\<rparr>
                   in case audio_transcriptions_create e (u ''whisper-1'') audio of
                        Inl x \<Rightarrow> (Inl x, w2)
                      | Inr text \<Rightarrow>
                          (let transcript = strip text
                           in case st_write e transcript
                                     (render (St_subheader (speaking_head @ u '' Transcript''))
                                        w2) of
                                (Inl x, w3) \<Rightarrow> (Inl x, w3)
                              | (Inr _, w3) \<Rightarrow>
                                  (case ask_model e (voice_messages transcript) zero_point_two
                                          w3 of
                                     (Inl x, w4) \<Rightarrow> (Inl x, w4)
                                   | (Inr reply, w4) \<Rightarrow>
                                       (case st_write e reply
                                               (render (St_subheader
                                                  (speech_balloon @ u '' Response'')) w4) of
                                          (Inl x, w5) \<Rightarrow> (Inl x, w5)
                                        | (Inr _, w5) \<Rightarrow>
                                            (let combined = combined_of transcript reply
                                             in case save_text e combined filename5 w5 of
                                                  (Inl x, w6) \<Rightarrow> (Inl x, w6)
                                                | (Inr path, w6) \<Rightarrow>
                                                    (let w7 =
                                                       history_append e (u ''Voice'') transcript
                                                         filename5 path
                                                         (render (St_download_button
                                                            (u ''Download transcript & response'')
                                                            combined (os_path_basename path))
                                                            (render (St_success
                                                               (check_mark @
                                                                u '' Transcript & response saved to '' @
                                                                path)) w6))
                                                     in (Inr path,
                                                         snd (os_remove e temp_path w7))))))))))"

text \<open>
  \<^verbatim>\<open>
  if process_audio:
      if not audio_file:
          st.warning("Please upload an audio file.")
          st.stop()
      try:
          ...
      except Exception as e:
          st.error(f"<cross mark> Voice processing failed: {str(e)}")
  \<close>
\<close>

definition tab_voice :: "env \<Rightarrow> uploaded_file option \<Rightarrow> ustr \<Rightarrow> world \<Rightarrow> outcome \<times> world" where
  "tab_voice e audio_file filename5 w =
     (case audio_file of
        None \<Rightarrow> (Stopped, render (St_warning (u ''Please upload an audio file.'')) w)
      | Some a \<Rightarrow>
          (case tab_voice_try e a filename5 w of
             (Inl x, w1) \<Rightarrow>
               (Processing_failed x,
                render (St_error (cross_mark @ u '' Voice processing failed: '' @ str_exn x)) w1)
           | (Inr path, w1) \<Rightarrow> (Saved path, w1)))"


section \<open>Names used in the statements\<close>

text \<open>
  The path \<open>save_text\<close> computes when it takes the \<open>n\<close>-th reading of the clock:
  the projects directory, the stamp of that reading, an underscore and the sanitized
  name. In a state \<open>w\<close> the next save goes to \<open>artifact_path e (ticks w) filename\<close>.
\<close>

definition artifact_path :: "env \<Rightarrow> nat \<Rightarrow> ustr \<Rightarrow> ustr" where
  "artifact_path e n filename =
     os_path_join (PROJECTS_DIR e)
       (strftime_stamp (clock e n) @ u ''_'' @ sanitize_filename filename)"

text \<open>
  Two readings of the clock fall in the same second: they agree in every field that
  \<open>%Y%m%d_%H%M%S\<close> prints, and may differ in the microseconds.
\<close>

definition same_second :: "datetime \<Rightarrow> datetime \<Rightarrow> bool" where
  "same_second d1 d2 \<longleftrightarrow>
     year d1 = year d2 \<and> month d1 = month d2 \<and> day d1 = day d2 \<and>
     hour d1 = hour d2 \<and> minute d1 = minute d2 \<and> second d1 = second d2"

text \<open>What \<open>ask_model\<close> returns for an exception \<open>x\<close> of the remote call.\<close>

definition error_text :: "exn \<Rightarrow> ustr" where
  "error_text x = warning_marker @ u '' Error: '' @ str_exn x"

text \<open>
  The text \<open>ask_model\<close> hands to its caller: the stripped content of the first choice,
  or the error text when the body of its \<open>try\<close> raised.
\<close>

definition completion_text :: "env \<Rightarrow> message list \<Rightarrow> rat \<Rightarrow> ustr" where
  "completion_text e messages temperature =
     (case ask_model_try e messages temperature of
        Inl x \<Rightarrow> error_text x
      | Inr text \<Rightarrow> text)"



text \<open>
  A run was rejected with a warning: it stopped, the warning is the one thing added to
  the page, and no request was sent, no file written and no record added.
\<close>

definition rejected :: "ustr \<Rightarrow> world \<Rightarrow> outcome \<times> world \<Rightarrow> bool" where
  "rejected msg w r \<longleftrightarrow>
     fst r = Stopped \<and> page (snd r) = page w @ [St_warning msg] \<and>
     requests (snd r) = requests w \<and> files (snd r) = files w \<and> history (snd r) = history w"

text \<open>
  A run ended in an \<open>except\<close> branch and recorded nothing: it ended as \<open>tag x\<close> for the
  exception \<open>x\<close> caught, the last thing put on the page is the error message made of
  the cross mark, the block's label and \<open>str(x)\<close>, and the history is as before.
\<close>

definition failed_unrecorded ::
    "(exn \<Rightarrow> outcome) \<Rightarrow> ustr \<Rightarrow> world \<Rightarrow> outcome \<times> world \<Rightarrow> bool" where
  "failed_unrecorded tag label w r \<longleftrightarrow>
     (\<exists>x. fst r = tag x \<and> page (snd r) \<noteq> [] \<and>
          last (page (snd r)) = St_error (cross_mark @ label @ str_exn x)) \<and>
     history (snd r) = history w"

subsection \<open>Example environments\<close>

text \<open>
  A working environment: the clock advances by one second per reading, the completion
  service answers \<open>" hi there "\<close>, the transcription service hears \<open>"hello "\<close>, and the
  file system refuses nothing. The variants break one service each.
\<close>

definition example_env :: env where
  "example_env =
     \<lparr>BASE_DIR = u ''/srv/app'',
      clock = (\<lambda>n. \<lparr>year = 2026, month = 11, day = 3, hour = 7, minute = 5, second = n,
                    microsecond = 0\<rparr>),
      chat_completions_create = (\<lambda>r. Inr [Some (u '' hi there '')]),
      audio_transcriptions_create = (\<lambda>m b. Inr (u ''hello '')),
      write_fault = (\<lambda>p. None),
      read_fault = (\<lambda>p. None),
      remove_fault = (\<lambda>p. None),
      encode_error_text = (\<lambda>s. u ''surrogates not allowed''),
      display_error = (\<lambda>s. Exn UnicodeEncodeError (u ''surrogates not allowed''))\<rparr>"


definition deaf_env :: env where
  "deaf_env =
     example_env\<lparr>audio_transcriptions_create :=
       (\<lambda>m b. Inl (Exn APIError (u ''Connection error.'')))\<rparr>"


text \<open>
  An environment whose projects directory refuses every file but the temporary copy of
  the upload \<open>memo.wav\<close>, and one whose completion service answers with a text that
  ends in a lone surrogate.
\<close>

definition locked_env :: env where
  "locked_env =
     example_env\<lparr>write_fault :=
       (\<lambda>p. if p = u ''/srv/app/projects/temp_memo.wav'' then None
            else Some (Open_fails (Exn OSError (u ''[Errno 13] Permission denied''))))\<rparr>"

definition surrogate_env :: env where
  "surrogate_env =
     example_env\<lparr>chat_completions_create := (\<lambda>r. Inr [Some [0x61, 0xD800]])\<rparr>"

definition frozen_clock_env :: env where
  "frozen_clock_env =
     example_env\<lparr>clock := (\<lambda>n. \<lparr>year = 2026, month = 11, day = 3, hour = 7, minute = 5,
                                second = 0, microsecond = n\<rparr>)\<rparr>"

definition empty_world :: world where
  "empty_world = \<lparr>history = [], files = Map.empty, page = [], requests = [], ticks = 0\<rparr>"


section \<open>Properties of the helpers\<close>

subsection \<open>White space and \<open>strip\<close>\<close>

lemma allowed_not_isspace: "allowed c \<Longrightarrow> \<not> isspace c"
  unfolding allowed_def isspace_def by arith

lemma dropWhile_id: "\<forall>x\<in>set xs. \<not> P x \<Longrightarrow> dropWhile P xs = xs"
  by (cases xs) auto

lemma strip_empty_iff: "strip s = [] \<longleftrightarrow> (\<forall>c\<in>set s. isspace c)"
proof
  assume "strip s = []"
  then have all: "\<forall>x\<in>set (dropWhile isspace s). isspace x"
    by (simp add: strip_def)
  have d: "dropWhile isspace s = []"
  proof (rule ccontr)
    assume ne: "dropWhile isspace s \<noteq> []"
    then have "\<not> isspace (hd (dropWhile isspace s))"
      by (rule hd_dropWhile)
    moreover have "hd (dropWhile isspace s) \<in> set (dropWhile isspace s)"
      using ne by (rule hd_in_set)
    ultimately show False
      using all by blast
  qed
  then show "\<forall>c\<in>set s. isspace c"
    by (simp only: dropWhile_eq_Nil_conv)
next
  assume "\<forall>c\<in>set s. isspace c"
  then have "dropWhile isspace s = []"
    by (simp only: dropWhile_eq_Nil_conv)
  then show "strip s = []"
    by (simp only: strip_def rev.simps dropWhile.simps)
qed

lemma strip_decomp:
  "\<exists>a b. s = a @ strip s @ b \<and> (\<forall>c\<in>set a. isspace c) \<and> (\<forall>c\<in>set b. isspace c)"
proof -
  let ?t = "dropWhile isspace s"
  let ?r = "rev ?t"
  have s: "s = takeWhile isspace s @ ?t"
    by simp
  have "?r = takeWhile isspace ?r @ dropWhile isspace ?r"
    by simp
  then have "rev ?r = rev (dropWhile isspace ?r) @ rev (takeWhile isspace ?r)"
    by (metis rev_append)
  then have t: "?t = strip s @ rev (takeWhile isspace ?r)"
    by (simp add: strip_def)
  have "s = takeWhile isspace s @ strip s @ rev (takeWhile isspace ?r)"
    using s t by metis
  moreover have "\<forall>c\<in>set (takeWhile isspace s). isspace c"
    by (auto dest: set_takeWhileD)
  moreover have "\<forall>c\<in>set (rev (takeWhile isspace ?r)). isspace c"
    by (auto dest: set_takeWhileD)
  ultimately show ?thesis
    by blast
qed

lemma strip_hd: "strip s \<noteq> [] \<Longrightarrow> \<not> isspace (hd (strip s))"
proof -
  assume ne: "strip s \<noteq> []"
  let ?t = "dropWhile isspace s"
  let ?k = "takeWhile isspace (rev ?t)"
  have t: "?t = strip s @ rev ?k"
  proof -
    have "rev ?t = ?k @ dropWhile isspace (rev ?t)"
      by simp
    then have "rev (rev ?t) = rev (dropWhile isspace (rev ?t)) @ rev ?k"
      by (metis rev_append)
    then show ?thesis
      by (simp add: strip_def)
  qed
  then have "?t \<noteq> []"
    using ne by (metis append_is_Nil_conv)
  then have "\<not> isspace (hd ?t)"
    by (rule hd_dropWhile)
  moreover have "hd ?t = hd (strip s)"
    using t ne by (metis hd_append2)
  ultimately show ?thesis
    by simp
qed

lemma strip_last: "strip s \<noteq> [] \<Longrightarrow> \<not> isspace (last (strip s))"
proof -
  assume ne: "strip s \<noteq> []"
  let ?d = "dropWhile isspace (rev (dropWhile isspace s))"
  have "?d \<noteq> []"
    using ne by (simp add: strip_def)
  then have "\<not> isspace (hd ?d)"
    by (rule hd_dropWhile)
  moreover have "last (strip s) = hd ?d"
    using \<open>?d \<noteq> []\<close> by (simp add: strip_def last_rev)
  ultimately show ?thesis
    by simp
qed

lemma strip_id: "\<forall>c\<in>set s. \<not> isspace c \<Longrightarrow> strip s = s"
proof -
  assume a: "\<forall>c\<in>set s. \<not> isspace c"
  have 1: "dropWhile isspace s = s"
    using a by (rule dropWhile_id)
  have 2: "dropWhile isspace (rev s) = rev s"
    using a by (intro dropWhile_id) simp
  show ?thesis
    by (simp add: strip_def 1 2)
qed

subsection \<open>The sanitizer\<close>

lemma allowed_py: "\<forall>c\<in>set (u ''.py''). allowed c"
  by (simp add: u_def allowed_def)

lemma allowed_default: "\<forall>c\<in>set (u ''app.py''). allowed c"
  by (simp add: u_def allowed_def)

lemma allowed_underscore: "allowed (of_char CHR ''_'')"
  by (simp add: allowed_def)

lemma allowed_re_sub: "\<forall>c\<in>set (re_sub_underscore s). allowed c"
  by (auto simp: re_sub_underscore_def allowed_def)

lemma re_sub_id: "\<forall>c\<in>set s. allowed c \<Longrightarrow> re_sub_underscore s = s"
  by (simp add: re_sub_underscore_def map_idI)

lemma endswith_append: "endswith (s @ t) t"
  by (simp add: endswith_def)

lemma endswith_default: "endswith (u ''app.py'') (u ''.py'')"
  by (simp add: endswith_def u_def)

lemma sanitize_allowed: "\<forall>c\<in>set (sanitize_filename n). allowed c"
  using allowed_py allowed_default allowed_re_sub [of "strip n"]
  by (auto simp: sanitize_filename_def Let_def)

lemma sanitize_endswith: "endswith (sanitize_filename n) (u ''.py'')"
  by (simp add: sanitize_filename_def Let_def endswith_append endswith_default)

lemma sanitize_nonempty: "sanitize_filename n \<noteq> []"
  by (auto simp: sanitize_filename_def Let_def u_def re_sub_underscore_def)

text \<open>
  C2. The result of \<open>sanitize_filename\<close> consists of allowed characters only (ASCII
  letters, digits, underscore, hyphen, dot) and ends with \<open>.py\<close>. For an empty or
  white-space-only name it is the default \<open>app.py\<close>. Otherwise the name is some white
  space, a core \<open>m\<close> that neither starts nor ends with white space, and some white
  space again; the result is \<open>m\<close> with every character outside the allowed set replaced
  by an underscore, followed by \<open>.py\<close> only when it does not already end with it.
\<close>

theorem sanitize_filename_spec:
  "(\<forall>c\<in>set (sanitize_filename n). allowed c) \<and>
   endswith (sanitize_filename n) (u ''.py'') \<and>
   ((\<forall>c\<in>set n. isspace c) \<longrightarrow> sanitize_filename n = u ''app.py'') \<and>
   (\<not> (\<forall>c\<in>set n. isspace c) \<longrightarrow>
      (\<exists>a m b. n = a @ m @ b \<and> (\<forall>c\<in>set a. isspace c) \<and> (\<forall>c\<in>set b. isspace c) \<and>
         m \<noteq> [] \<and> \<not> isspace (hd m) \<and> \<not> isspace (last m) \<and>
         (let r = map (\<lambda>c. if allowed c then c else of_char CHR ''_'') m
          in sanitize_filename n = (if endswith r (u ''.py'') then r else r @ u ''.py''))))"
proof (intro conjI impI)
  show "\<forall>c\<in>set (sanitize_filename n). allowed c"
    by (rule sanitize_allowed)
  show "endswith (sanitize_filename n) (u ''.py'')"
    by (rule sanitize_endswith)
next
  assume "\<forall>c\<in>set n. isspace c"
  then have "strip n = []"
    by (simp add: strip_empty_iff)
  then show "sanitize_filename n = u ''app.py''"
    by (simp add: sanitize_filename_def)
next
  assume "\<not> (\<forall>c\<in>set n. isspace c)"
  then have ne: "strip n \<noteq> []"
    by (simp add: strip_empty_iff)
  obtain a b where ab: "n = a @ strip n @ b" "\<forall>c\<in>set a. isspace c" "\<forall>c\<in>set b. isspace c"
    using strip_decomp [of n] by blast
  have "let r = map (\<lambda>c. if allowed c then c else of_char CHR ''_'') (strip n)
        in sanitize_filename n = (if endswith r (u ''.py'') then r else r @ u ''.py'')"
    using ne by (simp add: sanitize_filename_def Let_def re_sub_underscore_def)
  with ab ne strip_hd [OF ne] strip_last [OF ne]
  show "\<exists>a m b. n = a @ m @ b \<and> (\<forall>c\<in>set a. isspace c) \<and> (\<forall>c\<in>set b. isspace c) \<and>
         m \<noteq> [] \<and> \<not> isspace (hd m) \<and> \<not> isspace (last m) \<and>
         (let r = map (\<lambda>c. if allowed c then c else of_char CHR ''_'') m
          in sanitize_filename n = (if endswith r (u ''.py'') then r else r @ u ''.py''))"
    by blast
qed

theorem sanitize_filename_spec_witness:
  "sanitize_filename (u '' my file.txt '') = u ''my_file.txt.py'' \<and>
   sanitize_filename (u ''calc.py'') = u ''calc.py'' \<and>
   sanitize_filename (u ''   '') = u ''app.py'' \<and>
   endswith (sanitize_filename (u '' my file.txt '')) (u ''.py'') \<and>
   list_all allowed (sanitize_filename (u '' my file.txt ''))"
  using sanitize_filename_spec [of "u '' my file.txt ''"]
  by (simp add: sanitize_filename_def strip_def re_sub_underscore_def endswith_def
      isspace_def allowed_def u_def)

text \<open>
  C10. The sanitizer is idempotent: its result is not empty, has allowed characters
  only (none of which is white space) and ends with \<open>.py\<close>, so a second pass strips
  nothing, replaces nothing and appends nothing.
\<close>

theorem sanitize_filename_idempotent:
  "sanitize_filename (sanitize_filename n) = sanitize_filename n"
proof -
  let ?s = "sanitize_filename n"
  have al: "\<forall>c\<in>set ?s. allowed c"
    by (rule sanitize_allowed)
  then have "\<forall>c\<in>set ?s. \<not> isspace c"
    by (blast dest: allowed_not_isspace)
  then have st: "strip ?s = ?s"
    by (rule strip_id)
  have re: "re_sub_underscore ?s = ?s"
    using al by (rule re_sub_id)
  have "sanitize_filename ?s =
        (if strip ?s = [] then u ''app.py''
         else if \<not> endswith (re_sub_underscore (strip ?s)) (u ''.py'')
              then re_sub_underscore (strip ?s) @ u ''.py''
              else re_sub_underscore (strip ?s))"
    by (simp add: sanitize_filename_def [of ?s] Let_def)
  then show ?thesis
    using sanitize_nonempty [of n] sanitize_endswith [of n] by (simp add: st re)
qed

theorem sanitize_filename_idempotent_witness:
  "sanitize_filename (sanitize_filename (u ''my app!'')) = u ''my_app_.py''"
  using sanitize_filename_idempotent [of "u ''my app!''"]
  by (simp add: sanitize_filename_def strip_def re_sub_underscore_def endswith_def
      isspace_def allowed_def u_def)

section \<open>UTF-8: decoding what was encoded\<close>

lemma unat8: "n < 256 \<Longrightarrow> unat (of_nat n :: byte) = n"
  by (simp add: unat_of_nat)

lemma decode1:
  assumes "trailing b = 0"
  shows "utf8_decode (b # rest) =
    map_option ((#) (lead_bits b)) (utf8_decode rest)"
  using assms by (simp add: least_code_def surrogate_def lead_bits_def trailing_def split: if_splits)

lemma decode2:
  assumes "trailing b = 1" "continuation b1"
    "0x80 \<le> lead_bits b * 0x40 + (unat b1 - 0x80)"
    "lead_bits b * 0x40 + (unat b1 - 0x80) < 0x800"
  shows "utf8_decode (b # b1 # rest) =
    map_option ((#) ((lead_bits b * 0x40 + (unat b1 - 0x80)))) (utf8_decode rest)"
  using assms by (simp add: least_code_def surrogate_def)

lemma decode3:
  assumes "trailing b = 2" "continuation b1" "continuation b2"
    "0x800 \<le> (lead_bits b * 0x40 + (unat b1 - 0x80)) * 0x40 + (unat b2 - 0x80)"
    "(lead_bits b * 0x40 + (unat b1 - 0x80)) * 0x40 + (unat b2 - 0x80) < 0x10000"
    "\<not> surrogate ((lead_bits b * 0x40 + (unat b1 - 0x80)) * 0x40 + (unat b2 - 0x80))"
  shows "utf8_decode (b # b1 # b2 # rest) =
    map_option ((#) (((lead_bits b * 0x40 + (unat b1 - 0x80)) * 0x40 + (unat b2 - 0x80)))) (utf8_decode rest)"
  using assms by (simp add: least_code_def numeral_2_eq_2)

lemma decode4:
  assumes "trailing b = 3" "continuation b1" "continuation b2" "continuation b3"
    "0x10000 \<le> ((lead_bits b * 0x40 + (unat b1 - 0x80)) * 0x40 + (unat b2 - 0x80)) * 0x40 + (unat b3 - 0x80)"
    "((lead_bits b * 0x40 + (unat b1 - 0x80)) * 0x40 + (unat b2 - 0x80)) * 0x40 + (unat b3 - 0x80) < 0x110000"
  shows "utf8_decode (b # b1 # b2 # b3 # rest) =
    map_option ((#) ((((lead_bits b * 0x40 + (unat b1 - 0x80)) * 0x40 + (unat b2 - 0x80)) * 0x40 + (unat b3 - 0x80)))) (utf8_decode rest)"
  using assms by (simp add: least_code_def surrogate_def numeral_3_eq_3)

lemma continuation_low6: "continuation (of_nat (0x80 + n mod 0x40))"
proof -
  have "n mod 0x40 < 0x40" by simp
  then have "0x80 + n mod 0x40 < 256" by linarith
  then have "unat (of_nat (0x80 + n mod 0x40) :: byte) = 0x80 + n mod 0x40" by (rule unat8)
  then show ?thesis using \<open>n mod 0x40 < 0x40\<close> by (simp add: continuation_def)
qed

lemma unat_low6: "unat (of_nat (0x80 + n mod 0x40) :: byte) - 0x80 = n mod 0x40"
proof -
  have "n mod 0x40 < 0x40" by simp
  then have "0x80 + n mod 0x40 < 256" by linarith
  then have "unat (of_nat (0x80 + n mod 0x40) :: byte) = 0x80 + n mod 0x40" by (rule unat8)
  then show ?thesis by simp
qed


lemma lead1: "unat b = n \<Longrightarrow> n < 0x80 \<Longrightarrow> trailing b = 0 \<and> lead_bits b = n"
  by (simp add: trailing_def lead_bits_def)

lemma lead2: "unat b = 0xC0 + n \<Longrightarrow> n < 0x20 \<Longrightarrow> trailing b = 1 \<and> lead_bits b = n"
  by (simp add: trailing_def lead_bits_def)

lemma lead3: "unat b = 0xE0 + n \<Longrightarrow> n < 0x10 \<Longrightarrow> trailing b = 2 \<and> lead_bits b = n"
  by (simp add: trailing_def lead_bits_def)

lemma lead4: "unat b = 0xF0 + n \<Longrightarrow> n < 0x8 \<Longrightarrow> trailing b = 3 \<and> lead_bits b = n"
  by (simp add: trailing_def lead_bits_def)

lemma split2: "n div 0x40 * 0x40 + n mod 0x40 = (n::nat)"
  by simp

lemma split3: "(n div 0x1000 * 0x40 + n div 0x40 mod 0x40) * 0x40 + n mod 0x40 = (n::nat)"
proof -
  have "n div 0x40 div 0x40 = n div 0x1000"
    by (simp add: div_mult2_eq [symmetric])
  then have "n div 0x1000 * 0x40 + n div 0x40 mod 0x40 = n div 0x40"
    using split2 [of "n div 0x40"] by simp
  then show ?thesis
    using split2 [of n] by simp
qed

lemma split4:
  "((n div 0x40000 * 0x40 + n div 0x1000 mod 0x40) * 0x40 + n div 0x40 mod 0x40) * 0x40
     + n mod 0x40 = (n::nat)"
proof -
  have "n div 0x1000 div 0x40 = n div 0x40000"
    by (simp add: div_mult2_eq [symmetric])
  then have "n div 0x40000 * 0x40 + n div 0x1000 mod 0x40 = n div 0x1000"
    using split2 [of "n div 0x1000"] by simp
  then show ?thesis
    using split3 [of n] by simp
qed

lemma utf8_decode_char:
  assumes "utf8_char c = Some bs"
  shows "utf8_decode (bs @ rest) = map_option ((#) c) (utf8_decode rest)"
proof -
  consider (one) "c < 0x80"
    | (two) "0x80 \<le> c" "c < 0x800"
    | (three) "0x800 \<le> c" "c < 0x10000" "\<not> surrogate c"
    | (four) "0x10000 \<le> c" "c < 0x110000"
    using assms by (auto simp: utf8_char_def split: if_splits)
  then show ?thesis
  proof cases
    case one
    then have bs: "bs = [of_nat c]"
      using assms by (simp add: utf8_char_def)
    have un: "unat (of_nat c :: byte) = c"
      using one by (intro unat8) linarith
    have "trailing (of_nat c :: byte) = 0 \<and> lead_bits (of_nat c :: byte) = c"
      using un one by (rule lead1)
    then show ?thesis
      using decode1 [of "of_nat c" rest] by (simp add: bs)
  next
    case two
    let ?b = "of_nat (0xC0 + c div 0x40) :: byte"
    let ?b1 = "of_nat (0x80 + c mod 0x40) :: byte"
    have bs: "bs = [?b, ?b1]"
      using assms two by (simp add: utf8_char_def)
    have q: "c div 0x40 < 0x20"
      using two by arith
    then have "0xC0 + c div 0x40 < (256::nat)"
      by linarith
    then have un: "unat ?b = 0xC0 + c div 0x40"
      by (rule unat8)
    have "trailing ?b = 1 \<and> lead_bits ?b = c div 0x40"
      using un q by (rule lead2)
    then have t: "trailing ?b = 1" and l: "lead_bits ?b = c div 0x40"
      by blast+
    have v: "lead_bits ?b * 0x40 + (unat ?b1 - 0x80) = c"
      by (simp only: l unat_low6) simp
    show ?thesis
      using decode2 [of ?b ?b1 rest] t two continuation_low6 [of c]
      by (simp only: v bs) simp
  next
    case three
    let ?b = "of_nat (0xE0 + c div 0x1000) :: byte"
    let ?b1 = "of_nat (0x80 + c div 0x40 mod 0x40) :: byte"
    let ?b2 = "of_nat (0x80 + c mod 0x40) :: byte"
    have bs: "bs = [?b, ?b1, ?b2]"
      using assms three by (simp add: utf8_char_def)
    have q: "c div 0x1000 < 0x10"
      using three by arith
    then have "0xE0 + c div 0x1000 < (256::nat)"
      by linarith
    then have un: "unat ?b = 0xE0 + c div 0x1000"
      by (rule unat8)
    have "trailing ?b = 2 \<and> lead_bits ?b = c div 0x1000"
      using un q by (rule lead3)
    then have t: "trailing ?b = 2" and l: "lead_bits ?b = c div 0x1000"
      by blast+
    have "(c div 0x1000 * 0x40 + c div 0x40 mod 0x40) * 0x40 + c mod 0x40 = c"
      by (simp only: split3)
    then have v: "(lead_bits ?b * 0x40 + (unat ?b1 - 0x80)) * 0x40 + (unat ?b2 - 0x80) = c"
      by (simp only: l unat_low6)
    show ?thesis
      using decode3 [of ?b ?b1 ?b2 rest] t three
        continuation_low6 [of c] continuation_low6 [of "c div 0x40"]
      by (simp only: v bs) simp
  next
    case four
    let ?b = "of_nat (0xF0 + c div 0x40000) :: byte"
    let ?b1 = "of_nat (0x80 + c div 0x1000 mod 0x40) :: byte"
    let ?b2 = "of_nat (0x80 + c div 0x40 mod 0x40) :: byte"
    let ?b3 = "of_nat (0x80 + c mod 0x40) :: byte"
    have bs: "bs = [?b, ?b1, ?b2, ?b3]"
      using assms four by (simp add: utf8_char_def)
    have q: "c div 0x40000 < 0x5"
      using four by arith
    then have "0xF0 + c div 0x40000 < (256::nat)"
      by linarith
    then have un: "unat ?b = 0xF0 + c div 0x40000"
      by (rule unat8)
    have q8: "c div 0x40000 < 0x8"
      using q by linarith
    have "trailing ?b = 3 \<and> lead_bits ?b = c div 0x40000"
      using un q8 by (rule lead4)
    then have t: "trailing ?b = 3" and l: "lead_bits ?b = c div 0x40000"
      by blast+
    have "((c div 0x40000 * 0x40 + c div 0x1000 mod 0x40) * 0x40 + c div 0x40 mod 0x40) * 0x40
            + c mod 0x40 = c"
      by (simp only: split4)
    then have v: "((lead_bits ?b * 0x40 + (unat ?b1 - 0x80)) * 0x40 + (unat ?b2 - 0x80)) * 0x40
            + (unat ?b3 - 0x80) = c"
      by (simp only: l unat_low6)
    show ?thesis
      using decode4 [of ?b ?b1 ?b2 ?b3 rest] t four
        continuation_low6 [of c] continuation_low6 [of "c div 0x40"]
        continuation_low6 [of "c div 0x1000"]
      by (simp only: v bs) simp
  qed
qed

lemma utf8_roundtrip: "utf8_encode s = Some bs \<Longrightarrow> utf8_decode bs = Some s"
proof (induction s arbitrary: bs)
  case Nil
  then show ?case by simp
next
  case (Cons c cs)
  then obtain h r where
    h: "utf8_char c = Some h" and r: "utf8_encode cs = Some r" and bs: "bs = h @ r"
    by (auto split: option.splits)
  have "utf8_decode r = Some cs"
    using Cons.IH r by simp
  then show ?case
    by (simp only: bs utf8_decode_char [OF h]) simp
qed

section \<open>Effects of the helpers\<close>

lemma render_simps:
  "history (render el w) = history w" "files (render el w) = files w"
  "requests (render el w) = requests w" "ticks (render el w) = ticks w"
  "page (render el w) = page w @ [el]"
  by (simp_all add: render_def)

lemma history_append_simps:
  "history (history_append e m p f path w) =
     history w @ [\<lparr>item_mode = m, item_prompt = p, item_filename = f, item_path = path,
                   item_time = strftime_time (clock e (ticks w))\<rparr>]"
  "files (history_append e m p f path w) = files w"
  "requests (history_append e m p f path w) = requests w"
  "page (history_append e m p f path w) = page w"
  "ticks (history_append e m p f path w) = Suc (ticks w)"
  by (simp_all add: history_append_def datetime_now_def)

lemma save_text_Inr:
  "save_text e content filename w = (Inr path, w') \<longleftrightarrow>
     path = artifact_path e (ticks w) filename \<and> write_fault e path = None \<and>
     (\<exists>bs. utf8_encode content = Some bs \<and>
           w' = w\<lparr>ticks := Suc (ticks w), files := (files w)(path \<mapsto> bs)\<rparr>)"
  by (auto simp: save_text_def write_text_def datetime_now_def artifact_path_def Let_def
      split: option.splits fault.splits)

lemma save_text_Inl:
  "save_text e content filename w = (Inl x, w') \<Longrightarrow>
     history w' = history w \<and> page w' = page w \<and> requests w' = requests w \<and>
     ticks w' = Suc (ticks w) \<and> (\<forall>p. p \<noteq> artifact_path e (ticks w) filename \<longrightarrow> files w' p = files w p)"
  by (auto simp: save_text_def write_text_def datetime_now_def artifact_path_def Let_def
      split: option.splits fault.splits)

lemma save_text_fault:
  "write_fault e (artifact_path e (ticks w) filename) = Some f \<Longrightarrow>
     \<exists>x w'. save_text e content filename w = (Inl x, w')"
  by (auto simp: save_text_def write_text_def datetime_now_def artifact_path_def Let_def
      split: option.splits fault.splits)

lemma ask_model_eq:
  "ask_model e messages temperature w =
     (Inr (completion_text e messages temperature),
      w\<lparr>requests := requests w @ [Chat_request (u ''gpt-3.5-turbo'', messages, temperature)]\<rparr>)"
  by (simp add: ask_model_def completion_text_def error_text_def Let_def split: sum.splits)


lemma st_code_displayable:
  "displayable body \<Longrightarrow>
     st_code e body language w = (Inr (), render (St_code body language) w)"
  by (simp add: st_code_def)

lemma st_code_refused:
  "\<not> displayable body \<Longrightarrow> st_code e body language w = (Inl (display_error e body), w)"
  by (simp add: st_code_def)

lemma st_write_displayable:
  "displayable body \<Longrightarrow> st_write e body w = (Inr (), render (St_write body) w)"
  by (simp add: st_write_def)

lemma st_write_refused:
  "\<not> displayable body \<Longrightarrow> st_write e body w = (Inl (display_error e body), w)"
  by (simp add: st_write_def)

lemma st_write_frame:
  assumes "st_write e body w = (r, w')"
  shows "history w' = history w" "files w' = files w" "requests w' = requests w"
    "ticks w' = ticks w"
  using assms by (auto simp: st_write_def render_simps split: if_splits)

section \<open>Saving an artifact\<close>

lemmas eval_defs =
  save_text_def write_text_def datetime_now_def artifact_path_def strftime_stamp_def
  strftime_time_def pad2_def pad4_def digit_def os_path_join_def PROJECTS_DIR_def sep_def
  sanitize_filename_def strip_def re_sub_underscore_def endswith_def isspace_def allowed_def
  utf8_char_def example_env_def empty_world_def u_def Let_def

lemma digit_not_sep: "digit n \<noteq> sep"
  by (simp add: digit_def sep_def)

lemma stamp_relative:
  "strftime_stamp d @ s \<noteq> [] \<and> hd (strftime_stamp d @ s) \<noteq> sep"
  by (simp add: strftime_stamp_def pad4_def digit_not_sep)

lemma os_path_join_relative:
  "b \<noteq> [] \<and> hd b \<noteq> sep \<Longrightarrow>
     os_path_join a b = (if a = [] \<or> last a = sep then a else a @ [sep]) @ b"
  by (simp add: os_path_join_def)

lemma artifact_path_eq_iff:
  assumes "BASE_DIR e1 = BASE_DIR e2"
  shows "artifact_path e1 (ticks w1) n1 = artifact_path e2 (ticks w2) n2 \<longleftrightarrow>
     strftime_stamp (clock e1 (ticks w1)) @ u ''_'' @ sanitize_filename n1 =
     strftime_stamp (clock e2 (ticks w2)) @ u ''_'' @ sanitize_filename n2"
  using assms stamp_relative
  by (simp add: artifact_path_def PROJECTS_DIR_def os_path_join_relative)

lemma read_text_written:
  "utf8_encode content = Some bs \<Longrightarrow> files w path = Some bs \<Longrightarrow> read_text w path = Some content"
  by (simp add: read_text_def utf8_roundtrip)

text \<open>
  C3. A successful \<open>save_text\<close> leaves at the path it returns exactly the UTF-8
  encoding of the content, so reading that file back as UTF-8 text right afterwards
  gives the content: for every content and every requested name, in every state and
  environment.
\<close>

theorem save_text_roundtrip:
  assumes "save_text e content filename w = (Inr path, w')"
  shows "(\<exists>bs. utf8_encode content = Some bs \<and> files w' path = Some bs) \<and>
         read_text w' path = Some content"
proof -
  from assms obtain bs where
    enc: "utf8_encode content = Some bs" and
    w': "w' = w\<lparr>ticks := Suc (ticks w), files := (files w)(path \<mapsto> bs)\<rparr>"
    by (auto simp: save_text_Inr)
  have f: "files w' path = Some bs"
    by (simp add: w')
  with enc show ?thesis
    by (simp add: read_text_written)
qed

lemma pairI: "fst r = a \<Longrightarrow> r = (a, snd r)"
  by auto

lemma example_save:
  "fst (save_text example_env (u ''x = 1'') (u ''my calc'') empty_world) =
     Inr (u ''/srv/app/projects/20261103_070500_my_calc.py'')"
  by (simp add: eval_defs)

theorem save_text_roundtrip_witness:
  "fst (save_text example_env (u ''x = 1'') (u ''my calc'') empty_world) =
     Inr (u ''/srv/app/projects/20261103_070500_my_calc.py'') \<and>
   read_text (snd (save_text example_env (u ''x = 1'') (u ''my calc'') empty_world))
     (u ''/srv/app/projects/20261103_070500_my_calc.py'') = Some (u ''x = 1'')"
  using save_text_roundtrip [OF pairI [OF example_save]] example_save by simp

text \<open>
  The stamp keeps exactly the fields down to the second: two valid readings have the
  same stamp if and only if they agree in year, month, day, hour, minute and second.
\<close>

lemma digit_eq: "digit a = digit b \<longleftrightarrow> a mod 10 = b mod 10"
  by (simp add: digit_def)

lemma pad2_inj: "a < 100 \<Longrightarrow> b < 100 \<Longrightarrow> pad2 a = pad2 b \<Longrightarrow> a = b"
proof -
  assume a: "a < 100" and b: "b < 100" and eq: "pad2 a = pad2 b"
  have 1: "a div 10 mod 10 = b div 10 mod 10" and 2: "a mod 10 = b mod 10"
    using eq by (simp_all add: pad2_def digit_eq)
  have "a div 10 < 10" "b div 10 < 10"
    using a b by simp_all
  then have "a div 10 = b div 10"
    using 1 by simp
  then show "a = b"
    using 2 by (metis div_mult_mod_eq)
qed

lemma pad4_inj: "a < 10000 \<Longrightarrow> b < 10000 \<Longrightarrow> pad4 a = pad4 b \<Longrightarrow> a = b"
proof -
  assume a: "a < 10000" and b: "b < 10000" and eq: "pad4 a = pad4 b"
  have 1: "a div 1000 mod 10 = b div 1000 mod 10" and 2: "a div 100 mod 10 = b div 100 mod 10"
    and 3: "a div 10 mod 10 = b div 10 mod 10" and 4: "a mod 10 = b mod 10"
    using eq by (simp_all add: pad4_def digit_eq)
  have "a div 1000 < 10" "b div 1000 < 10"
    using a b by simp_all
  then have k: "a div 1000 = b div 1000"
    using 1 by simp
  have "a div 100 div 10 = a div 1000" "b div 100 div 10 = b div 1000"
    by (simp_all add: div_mult2_eq [symmetric])
  then have h: "a div 100 = b div 100"
    using k 2 by (metis div_mult_mod_eq)
  have "a div 10 div 10 = a div 100" "b div 10 div 10 = b div 100"
    by (simp_all add: div_mult2_eq [symmetric])
  then have t: "a div 10 = b div 10"
    using h 3 by (metis div_mult_mod_eq)
  show "a = b"
    using t 4 by (metis div_mult_mod_eq)
qed

lemma pad_lengths: "length (pad2 n) = 2" "length (pad4 n) = 4"
  by (simp_all add: pad2_def pad4_def)

lemma strftime_stamp_inj:
  assumes "valid_datetime d1" "valid_datetime d2"
  shows "strftime_stamp d1 = strftime_stamp d2 \<longleftrightarrow>
     year d1 = year d2 \<and> month d1 = month d2 \<and> day d1 = day d2 \<and>
     hour d1 = hour d2 \<and> minute d1 = minute d2 \<and> second d1 = second d2"
proof
  assume "strftime_stamp d1 = strftime_stamp d2"
  then have "pad4 (year d1) = pad4 (year d2)" "pad2 (month d1) = pad2 (month d2)"
    "pad2 (day d1) = pad2 (day d2)" "pad2 (hour d1) = pad2 (hour d2)"
    "pad2 (minute d1) = pad2 (minute d2)" "pad2 (second d1) = pad2 (second d2)"
    by (simp_all add: strftime_stamp_def pad_lengths)
  then show "year d1 = year d2 \<and> month d1 = month d2 \<and> day d1 = day d2 \<and>
     hour d1 = hour d2 \<and> minute d1 = minute d2 \<and> second d1 = second d2"
    using assms
      pad4_inj [of "year d1" "year d2"] pad2_inj [of "month d1" "month d2"]
      pad2_inj [of "day d1" "day d2"] pad2_inj [of "hour d1" "hour d2"]
      pad2_inj [of "minute d1" "minute d2"] pad2_inj [of "second d1" "second d2"]
    by (simp add: valid_datetime_def)
next
  assume "year d1 = year d2 \<and> month d1 = month d2 \<and> day d1 = day d2 \<and>
     hour d1 = hour d2 \<and> minute d1 = minute d2 \<and> second d1 = second d2"
  then show "strftime_stamp d1 = strftime_stamp d2"
    by (simp add: strftime_stamp_def)
qed

text \<open>
  C9. Two successful saves under the same projects directory whose requested names
  sanitize to the same name (two saves of the same requested name in particular), at
  readings of the clock that \<open>datetime.now()\<close> can give: if the two readings differ in
  the year, the month, the day, the hour, the minute or the second (two saves at
  least one second apart do), the returned paths differ; if the readings fall in the
  same second, whatever their microseconds, the paths are equal, and after the second
  save the file holds the second content, whatever the first save had put there.
\<close>

theorem save_text_paths:
  assumes "save_text e1 c1 n1 wa = (Inr p1, wa')"
      and "save_text e2 c2 n2 wb = (Inr p2, wb')"
      and "BASE_DIR e1 = BASE_DIR e2"
      and "sanitize_filename n1 = sanitize_filename n2"
      and "valid_datetime (clock e1 (ticks wa))"
      and "valid_datetime (clock e2 (ticks wb))"
  shows "(\<not> same_second (clock e1 (ticks wa)) (clock e2 (ticks wb)) \<longrightarrow> p1 \<noteq> p2) \<and>
         (same_second (clock e1 (ticks wa)) (clock e2 (ticks wb)) \<longrightarrow>
            p1 = p2 \<and> read_text wb' p1 = Some c2)"
proof -
  have p1: "p1 = artifact_path e1 (ticks wa) n1" and p2: "p2 = artifact_path e2 (ticks wb) n2"
    using assms(1,2) by (simp_all add: save_text_Inr)
  have "p1 = p2 \<longleftrightarrow>
      strftime_stamp (clock e1 (ticks wa)) = strftime_stamp (clock e2 (ticks wb))"
    by (simp add: p1 p2 artifact_path_eq_iff [OF assms(3)] assms(4))
  then have eq: "p1 = p2 \<longleftrightarrow> same_second (clock e1 (ticks wa)) (clock e2 (ticks wb))"
    by (simp only: strftime_stamp_inj [OF assms(5,6)] same_second_def)
  obtain bs where "utf8_encode c2 = Some bs"
    and "wb' = wb\<lparr>ticks := Suc (ticks wb), files := (files wb)(p2 \<mapsto> bs)\<rparr>"
    using assms(2) by (auto simp: save_text_Inr)
  then have "read_text wb' p2 = Some c2"
    by (simp add: read_text_written)
  with eq show ?thesis
    by auto
qed

lemma example_save_again:
  "fst (save_text example_env (u ''x = 2'') (u ''my calc '')
         (snd (save_text example_env (u ''x = 1'') (u ''my calc'') empty_world))) =
     Inr (u ''/srv/app/projects/20261103_070501_my_calc.py'')"
  by (simp add: eval_defs)

lemma frozen_save:
  "fst (save_text frozen_clock_env (u ''x = 1'') (u ''my calc'') empty_world) =
     Inr (u ''/srv/app/projects/20261103_070500_my_calc.py'')"
  by (simp add: eval_defs frozen_clock_env_def)

lemma frozen_save_again:
  "fst (save_text frozen_clock_env (u ''x = 2'') (u ''my calc '')
         (snd (save_text frozen_clock_env (u ''x = 1'') (u ''my calc'') empty_world))) =
     Inr (u ''/srv/app/projects/20261103_070500_my_calc.py'')"
  by (simp add: eval_defs frozen_clock_env_def)

lemma example_same_name: "sanitize_filename (u ''my calc'') = sanitize_filename (u ''my calc '')"
  by (simp add: eval_defs)

lemma example_clock_valid:
  "valid_datetime (clock example_env (ticks empty_world))"
  "valid_datetime (clock example_env
     (ticks (snd (save_text example_env (u ''x = 1'') (u ''my calc'') empty_world))))"
  "valid_datetime (clock frozen_clock_env (ticks empty_world))"
  "valid_datetime (clock frozen_clock_env
     (ticks (snd (save_text frozen_clock_env (u ''x = 1'') (u ''my calc'') empty_world))))"
  by (simp_all add: eval_defs frozen_clock_env_def valid_datetime_def)

text \<open>
  Two saves of \<open>"my calc"\<close> and \<open>"my calc "\<close> in the working environment, whose clock
  has moved on by a second between them, and the same two saves under a clock that
  has moved on by a microsecond only.
\<close>

theorem save_text_paths_witness:
  "fst (save_text example_env (u ''x = 1'') (u ''my calc'') empty_world) =
     Inr (u ''/srv/app/projects/20261103_070500_my_calc.py'') \<and>
   fst (save_text example_env (u ''x = 2'') (u ''my calc '')
         (snd (save_text example_env (u ''x = 1'') (u ''my calc'') empty_world))) =
     Inr (u ''/srv/app/projects/20261103_070501_my_calc.py'') \<and>
   fst (save_text example_env (u ''x = 1'') (u ''my calc'') empty_world) \<noteq>
     fst (save_text example_env (u ''x = 2'') (u ''my calc '')
           (snd (save_text example_env (u ''x = 1'') (u ''my calc'') empty_world))) \<and>
   fst (save_text frozen_clock_env (u ''x = 1'') (u ''my calc'') empty_world) =
     fst (save_text frozen_clock_env (u ''x = 2'') (u ''my calc '')
           (snd (save_text frozen_clock_env (u ''x = 1'') (u ''my calc'') empty_world))) \<and>
   read_text
     (snd (save_text frozen_clock_env (u ''x = 2'') (u ''my calc '')
        (snd (save_text frozen_clock_env (u ''x = 1'') (u ''my calc'') empty_world))))
     (u ''/srv/app/projects/20261103_070500_my_calc.py'') = Some (u ''x = 2'')"
proof -
  have apart: "\<not> same_second (clock example_env (ticks empty_world))
      (clock example_env
        (ticks (snd (save_text example_env (u ''x = 1'') (u ''my calc'') empty_world))))"
    by (simp add: eval_defs same_second_def)
  have together: "same_second (clock frozen_clock_env (ticks empty_world))
      (clock frozen_clock_env
        (ticks (snd (save_text frozen_clock_env (u ''x = 1'') (u ''my calc'') empty_world))))"
    by (simp add: eval_defs frozen_clock_env_def same_second_def)
  have "u ''/srv/app/projects/20261103_070500_my_calc.py'' \<noteq>
      u ''/srv/app/projects/20261103_070501_my_calc.py''"
    using save_text_paths [OF pairI [OF example_save] pairI [OF example_save_again] refl
        example_same_name example_clock_valid(1,2)] apart
    by blast
  moreover have "read_text
     (snd (save_text frozen_clock_env (u ''x = 2'') (u ''my calc '')
        (snd (save_text frozen_clock_env (u ''x = 1'') (u ''my calc'') empty_world))))
     (u ''/srv/app/projects/20261103_070500_my_calc.py'') = Some (u ''x = 2'')"
    using save_text_paths [OF pairI [OF frozen_save] pairI [OF frozen_save_again] refl
        example_same_name example_clock_valid(3,4)] together
    by blast
  ultimately show ?thesis
    by (simp only: example_save example_save_again frozen_save frozen_save_again sum.inject
        simp_thms)
qed

section \<open>The blocks of the five modes\<close>

subsection \<open>The saving step\<close>

lemma save_text_frame:
  assumes "save_text e content filename w = (r, w')"
  shows "history w' = history w" "page w' = page w" "requests w' = requests w"
    "ticks w' = Suc (ticks w)"
    "p \<noteq> artifact_path e (ticks w) filename \<Longrightarrow> files w' p = files w p"
  using assms
  by (auto simp: save_text_def write_text_def datetime_now_def artifact_path_def Let_def
      split: option.splits fault.splits)


subsection \<open>Build\<close>


lemma tab_build_fault:
  assumes "strip prompt \<noteq> []"
      and "write_fault e (artifact_path e (ticks w) filename) = Some f"
      and "displayable (completion_text e (build_messages prompt) zero_point_two)"
  shows "failed_unrecorded Save_failed (u '' Failed to save file: '') w (tab_build e prompt filename w)"
proof -
  let ?text = "completion_text e (build_messages prompt) zero_point_two"
  let ?w2 = "render (St_code ?text (u ''python''))
     (render (St_subheader (memo @ u '' Generated code''))
        (w\<lparr>requests := requests w @
             [Chat_request (u ''gpt-3.5-turbo'', build_messages prompt, zero_point_two)]\<rparr>))"
  have "write_fault e (artifact_path e (ticks ?w2) filename) = Some f"
    using assms(2) by (simp add: render_simps)
  then obtain x w3 where s: "save_text e ?text filename ?w2 = (Inl x, w3)"
    using save_text_fault by blast
  have "history w3 = history ?w2"
    using s by (rule save_text_frame)
  then have h: "history w3 = history w"
    by (simp add: render_simps)
  show ?thesis
    using assms(1) h
    by (simp add: failed_unrecorded_def tab_build_def ask_model_eq Let_def st_code_displayable [OF assms(3)] s render_simps)
qed

subsection \<open>Modify\<close>


lemma tab_modify_fault:
  assumes "strip base_code \<noteq> []"
      and "strip change_request \<noteq> []"
      and "write_fault e (artifact_path e (ticks w) filename2) = Some f"
      and "displayable (completion_text e (modify_messages base_code change_request) zero_point_two)"
  shows "failed_unrecorded Save_failed (u '' Failed to save file: '') w (tab_modify e base_code change_request filename2 w)"
proof -
  let ?text = "completion_text e (modify_messages base_code change_request) zero_point_two"
  let ?w2 = "render (St_code ?text (u ''python''))
     (render (St_subheader (memo @ u '' Updated code''))
        (w\<lparr>requests := requests w @
             [Chat_request (u ''gpt-3.5-turbo'', modify_messages base_code change_request,
                zero_point_two)]\<rparr>))"
  have "write_fault e (artifact_path e (ticks ?w2) filename2) = Some f"
    using assms(3) by (simp add: render_simps)
  then obtain x w3 where s: "save_text e ?text filename2 ?w2 = (Inl x, w3)"
    using save_text_fault by blast
  have "history w3 = history ?w2"
    using s by (rule save_text_frame)
  then have h: "history w3 = history w"
    by (simp add: render_simps)
  show ?thesis
    using assms(1,2) h
    by (simp add: failed_unrecorded_def tab_modify_def ask_model_eq Let_def st_code_displayable [OF assms(4)] s render_simps)
qed

subsection \<open>Edit\<close>


lemma tab_edit_fault:
  assumes "strip content \<noteq> []"
      and "strip edit_request \<noteq> []"
      and "write_fault e (artifact_path e (ticks w) filename3) = Some f"
      and "displayable (completion_text e (edit_messages content edit_request) zero_point_two)"
  shows "failed_unrecorded Save_failed (u '' Failed to save edited content: '') w (tab_edit e content edit_request filename3 w)"
proof -
  let ?text = "completion_text e (edit_messages content edit_request) zero_point_two"
  let ?w2 = "render (St_code ?text (u ''text''))
     (render (St_subheader (memo @ u '' Edited content''))
        (w\<lparr>requests := requests w @
             [Chat_request (u ''gpt-3.5-turbo'', edit_messages content edit_request,
                zero_point_two)]\<rparr>))"
  have "write_fault e (artifact_path e (ticks ?w2) filename3) = Some f"
    using assms(3) by (simp add: render_simps)
  then obtain x w3 where s: "save_text e ?text filename3 ?w2 = (Inl x, w3)"
    using save_text_fault by blast
  have "history w3 = history ?w2"
    using s by (rule save_text_frame)
  then have h: "history w3 = history w"
    by (simp add: render_simps)
  show ?thesis
    using assms(1,2) h
    by (simp add: failed_unrecorded_def tab_edit_def ask_model_eq Let_def st_code_displayable [OF assms(4)] s render_simps)
qed

subsection \<open>Ask\<close>


lemma tab_ask_fault:
  assumes "strip question \<noteq> []"
      and "strip filename4 \<noteq> []"
      and "write_fault e (artifact_path e (ticks w) filename4) = Some f"
      and "displayable (completion_text e (ask_messages question) 0)"
  shows "failed_unrecorded Save_failed (u '' Failed to save answer: '') w (tab_ask e question filename4 w)"
proof -
  let ?text = "completion_text e (ask_messages question) 0"
  let ?w2 = "render (St_write ?text)
     (render (St_subheader (brain @ u '' Answer''))
        (w\<lparr>requests := requests w @
             [Chat_request (u ''gpt-3.5-turbo'', ask_messages question, 0)]\<rparr>))"
  have "write_fault e (artifact_path e (ticks ?w2) filename4) = Some f"
    using assms(3) by (simp add: render_simps)
  then obtain x w3 where s: "save_text e ?text filename4 ?w2 = (Inl x, w3)"
    using save_text_fault by blast
  have "history w3 = history ?w2"
    using s by (rule save_text_frame)
  then have h: "history w3 = history w"
    by (simp add: render_simps)
  show ?thesis
    using assms(1,2) h
    by (simp add: failed_unrecorded_def tab_ask_def ask_model_eq Let_def st_write_displayable [OF assms(4)] s render_simps)
qed

subsection \<open>A completion that cannot be shown\<close>

lemma tab_build_refused:
  assumes "strip prompt \<noteq> []"
      and "\<not> displayable (completion_text e (build_messages prompt) zero_point_two)"
  shows "fst (tab_build e prompt filename w) =
           Uncaught (display_error e (completion_text e (build_messages prompt) zero_point_two))"
    and "files (snd (tab_build e prompt filename w)) = files w"
    and "history (snd (tab_build e prompt filename w)) = history w"
  using assms
  by (simp_all add: tab_build_def ask_model_eq st_code_refused render_simps)

lemma tab_modify_refused:
  assumes "strip base_code \<noteq> []"
      and "strip change_request \<noteq> []"
      and "\<not> displayable
             (completion_text e (modify_messages base_code change_request) zero_point_two)"
  shows "fst (tab_modify e base_code change_request filename2 w) =
           Uncaught (display_error e
             (completion_text e (modify_messages base_code change_request) zero_point_two))"
    and "files (snd (tab_modify e base_code change_request filename2 w)) = files w"
    and "history (snd (tab_modify e base_code change_request filename2 w)) = history w"
  using assms
  by (simp_all add: tab_modify_def ask_model_eq st_code_refused render_simps)

lemma tab_edit_refused:
  assumes "strip content \<noteq> []"
      and "strip edit_request \<noteq> []"
      and "\<not> displayable (completion_text e (edit_messages content edit_request) zero_point_two)"
  shows "fst (tab_edit e content edit_request filename3 w) =
           Uncaught (display_error e
             (completion_text e (edit_messages content edit_request) zero_point_two))"
    and "files (snd (tab_edit e content edit_request filename3 w)) = files w"
    and "history (snd (tab_edit e content edit_request filename3 w)) = history w"
  using assms
  by (simp_all add: tab_edit_def ask_model_eq st_code_refused render_simps)

lemma tab_ask_refused:
  assumes "strip question \<noteq> []"
      and "\<not> displayable (completion_text e (ask_messages question) 0)"
  shows "fst (tab_ask e question filename4 w) =
           Uncaught (display_error e (completion_text e (ask_messages question) 0))"
    and "files (snd (tab_ask e question filename4 w)) = files w"
    and "history (snd (tab_ask e question filename4 w)) = history w"
  using assms
  by (simp_all add: tab_ask_def ask_model_eq st_write_refused render_simps)

subsection \<open>Voice\<close>

lemma temp_relative: "u ''temp_'' @ n \<noteq> [] \<and> hd (u ''temp_'' @ n) \<noteq> sep"
  by (simp add: u_def sep_def)

lemma stamp_hd: "hd (strftime_stamp d @ s) = digit (year d div 1000)"
  by (simp add: strftime_stamp_def pad4_def)

lemma temp_hd: "hd (u ''temp_'' @ n) = of_char CHR ''t''"
  by (simp add: u_def)

lemma artifact_ne_temp: "artifact_path e n f \<noteq> temp_path_of e a"
proof
  assume eq: "artifact_path e n f = temp_path_of e a"
  let ?b1 = "strftime_stamp (clock e n) @ u ''_'' @ sanitize_filename f"
  let ?b2 = "u ''temp_'' @ fst a"
  have "?b1 = ?b2"
    using eq stamp_relative [of "clock e n" "u ''_'' @ sanitize_filename f"]
      temp_relative [of "fst a"]
    by (simp add: artifact_path_def temp_path_of_def os_path_join_relative)
  then have "hd ?b1 = hd ?b2"
    by simp
  then show False
    by (simp only: stamp_hd temp_hd) (simp add: digit_def)
qed

lemma write_bytes_cases:
  "write_bytes e path bs w = (r, w') \<Longrightarrow>
     history w' = history w \<and> page w' = page w \<and> requests w' = requests w \<and> ticks w' = ticks w \<and>
     (r = Inr () \<longrightarrow> write_fault e path = None \<and> w' = w\<lparr>files := (files w)(path \<mapsto> bs)\<rparr>) \<and>
     (write_fault e path = None \<longrightarrow> r = Inr ())"
  by (auto simp: write_bytes_def split: option.splits fault.splits)

lemma os_remove_effect:
  "history (snd (os_remove e path w)) = history w"
  "page (snd (os_remove e path w)) = page w"
  "requests (snd (os_remove e path w)) = requests w"
  "p \<noteq> path \<Longrightarrow> files (snd (os_remove e path w)) p = files w p"
  "remove_fault e path = None \<Longrightarrow> files (snd (os_remove e path w)) path = None"
  by (auto simp: os_remove_def split: option.splits)

lemma save_text_keeps_temp:
  "save_text e content filename w = (r, w') \<Longrightarrow>
     files w' (temp_path_of e a) = files w (temp_path_of e a)"
  using artifact_ne_temp [of e "ticks w" filename a] by (simp add: save_text_frame(5))

lemma voice_try_Inl:
  assumes "tab_voice_try e a f w = (Inl x, w')"
  shows "history w' = history w \<and>
         (write_fault e (temp_path_of e a) = None \<longrightarrow>
            files w' (temp_path_of e a) = Some (snd a))"
  using assms
  unfolding tab_voice_try_def Let_def
  by (auto simp: write_bytes_def read_bytes_def ask_model_eq st_write_def render_simps
      save_text_frame(1) save_text_keeps_temp
      split: prod.splits sum.splits option.splits fault.splits if_splits)

lemma voice_try_Inr:
  assumes "tab_voice_try e a f w = (Inr p, w')"
  shows "\<exists>text bs.
     audio_transcriptions_create e (u ''whisper-1'') (snd a) = Inr text \<and>
     p = artifact_path e (ticks w) f \<and> write_fault e p = None \<and>
     utf8_encode (combined_of (strip text)
        (completion_text e (voice_messages (strip text)) zero_point_two)) = Some bs \<and>
     files w' p = Some bs \<and>
     history w' = history w @
       [\<lparr>item_mode = u ''Voice'', item_prompt = strip text, item_filename = f, item_path = p,
         item_time = strftime_time (clock e (Suc (ticks w)))\<rparr>] \<and>
     (remove_fault e (temp_path_of e a) = None \<longrightarrow> files w' (temp_path_of e a) = None)"
  using assms
  unfolding tab_voice_try_def Let_def
  by (auto simp: write_bytes_def read_bytes_def ask_model_eq st_write_def render_simps
      save_text_Inr history_append_simps os_remove_effect artifact_ne_temp
      split: prod.splits sum.splits option.splits fault.splits if_splits)

lemma voice_try_fault:
  assumes "write_fault e (artifact_path e (ticks w) f) = Some flt"
  shows "\<exists>x w'. tab_voice_try e a f w = (Inl x, w')"
proof (cases "tab_voice_try e a f w")
  case (Pair r w')
  show ?thesis
  proof (cases r)
    case (Inl x)
    with Pair show ?thesis
      by simp
  next
    case (Inr p)
    with Pair have "tab_voice_try e a f w = (Inr p, w')"
      by simp
    then have "write_fault e (artifact_path e (ticks w) f) = None"
      using voice_try_Inr by blast
    with assms show ?thesis
      by simp
  qed
qed

lemma tab_voice_fault:
  assumes "write_fault e (artifact_path e (ticks w) f) = Some flt"
  shows "failed_unrecorded Processing_failed (u '' Voice processing failed: '') w
           (tab_voice e (Some a) f w)"
proof -
  obtain x w1 where t: "tab_voice_try e a f w = (Inl x, w1)"
    using voice_try_fault [OF assms] by blast
  have "history w1 = history w"
    using voice_try_Inl [OF t] by simp
  then show ?thesis
    by (simp add: failed_unrecorded_def tab_voice_def t render_simps)
qed

lemma tab_voice_Saved:
  "tab_voice e (Some a) f w = (Saved p, w') \<longleftrightarrow> tab_voice_try e a f w = (Inr p, w')"
  by (auto simp: tab_voice_def split: prod.splits sum.splits)

lemma tab_voice_Processing_failed:
  "tab_voice e (Some a) f w = (Processing_failed x, w') \<Longrightarrow>
     \<exists>w1. tab_voice_try e a f w = (Inl x, w1) \<and> files w' = files w1 \<and> history w' = history w1"
  by (auto simp: tab_voice_def render_simps split: prod.splits sum.splits)

section \<open>Properties of the runs\<close>

lemma blank_iff: "(\<forall>c\<in>set s. isspace c) \<longleftrightarrow> strip s = []"
  by (simp add: strip_empty_iff)

text \<open>
  C4. A Build, Modify or Edit run whose text input is empty or consists of white space
  only is rejected: it stops with the warning that names the missing field (for
  Modify and Edit the first of the two fields that is blank), the warning is the only
  thing added to the page, no request goes to the remote service, no file is written
  and the history stays as it was.
\<close>

theorem empty_input_rejected:
  "((\<forall>c\<in>set prompt. isspace c) \<longrightarrow>
      rejected (u ''Please describe what to build.'') w (tab_build e prompt filename w)) \<and>
   ((\<forall>c\<in>set base_code. isspace c) \<longrightarrow>
      rejected (u ''Please paste the code to modify.'') w
        (tab_modify e base_code change_request filename2 w)) \<and>
   (\<not> (\<forall>c\<in>set base_code. isspace c) \<and> (\<forall>c\<in>set change_request. isspace c) \<longrightarrow>
      rejected (u ''Please describe the changes you want.'') w
        (tab_modify e base_code change_request filename2 w)) \<and>
   ((\<forall>c\<in>set content. isspace c) \<longrightarrow>
      rejected (u ''Please paste the content to edit.'') w
        (tab_edit e content edit_request filename3 w)) \<and>
   (\<not> (\<forall>c\<in>set content. isspace c) \<and> (\<forall>c\<in>set edit_request. isspace c) \<longrightarrow>
      rejected (u ''Please describe the edit you want.'') w
        (tab_edit e content edit_request filename3 w))"
  by (simp add: blank_iff rejected_def tab_build_def tab_modify_def tab_edit_def render_simps)

theorem empty_input_rejected_witness:
  "rejected (u ''Please describe what to build.'') empty_world
     (tab_build example_env (u '' '') (u ''app.py'') empty_world) \<and>
   rejected (u ''Please paste the code to modify.'') empty_world
     (tab_modify example_env [] (u ''add a test'') (u ''updated_app.py'') empty_world) \<and>
   rejected (u ''Please describe the changes you want.'') empty_world
     (tab_modify example_env (u ''x = 1'') [0x09, 0x3000] (u ''updated_app.py'') empty_world) \<and>
   rejected (u ''Please paste the content to edit.'') empty_world
     (tab_edit example_env (u '' '') (u ''shorter'') (u ''edited.txt'') empty_world) \<and>
   rejected (u ''Please describe the edit you want.'') empty_world
     (tab_edit example_env (u ''Dear all'') [] (u ''edited.txt'') empty_world)"
  using empty_input_rejected [of "u '' ''" empty_world example_env "u ''app.py''" "[]"
      "u ''add a test''" "u ''updated_app.py''" "u '' ''" "u ''shorter''" "u ''edited.txt''"]
    empty_input_rejected [of "[]" empty_world example_env "[]" "u ''x = 1''"
      "[0x09, 0x3000]" "u ''updated_app.py''" "u ''Dear all''" "[]" "u ''edited.txt''"]
  by (simp add: u_def isspace_def)

lemmas run_defs =
  tab_build_def tab_modify_def tab_edit_def tab_ask_def tab_voice_def tab_voice_try_def
  ask_model_def ask_model_try_def write_bytes_def read_bytes_def os_remove_def
  history_append_def render_def st_code_def st_write_def displayable_def surrogate_def
  temp_path_of_def combined_of_def read_text_def
  build_messages_def voice_messages_def ask_messages_def

text \<open>
  C5. When the file system refuses the write at the artifact's path (\<open>open\<close> raises, or
  the write does), a run that passed its validation leaves the history exactly as it
  was before the run, and a run that reaches its saving step ends in its \<open>except\<close>
  branch, with the error message and the text of the exception as the last thing on
  the page. A Build, Modify or Edit run reaches the saving step when the completion
  could be shown, an Ask run when moreover the target filename is not blank. For Voice
  the conclusion holds for every run with an upload, since its single \<open>except\<close> branch
  also catches every earlier failure of the run.
\<close>

theorem save_failure_not_recorded:
  assumes "write_fault e (artifact_path e (ticks w) filename) = Some f"
  shows
   "(strip prompt \<noteq> [] \<longrightarrow>
       history (snd (tab_build e prompt filename w)) = history w \<and>
       (displayable (completion_text e (build_messages prompt) zero_point_two) \<longrightarrow>
          failed_unrecorded Save_failed (u '' Failed to save file: '') w
            (tab_build e prompt filename w))) \<and>
    (strip base_code \<noteq> [] \<and> strip change_request \<noteq> [] \<longrightarrow>
       history (snd (tab_modify e base_code change_request filename w)) = history w \<and>
       (displayable (completion_text e (modify_messages base_code change_request)
          zero_point_two) \<longrightarrow>
          failed_unrecorded Save_failed (u '' Failed to save file: '') w
            (tab_modify e base_code change_request filename w))) \<and>
    (strip content \<noteq> [] \<and> strip edit_request \<noteq> [] \<longrightarrow>
       history (snd (tab_edit e content edit_request filename w)) = history w \<and>
       (displayable (completion_text e (edit_messages content edit_request)
          zero_point_two) \<longrightarrow>
          failed_unrecorded Save_failed (u '' Failed to save edited content: '') w
            (tab_edit e content edit_request filename w))) \<and>
    (strip question \<noteq> [] \<and> strip filename \<noteq> [] \<longrightarrow>
       history (snd (tab_ask e question filename w)) = history w \<and>
       (displayable (completion_text e (ask_messages question) 0) \<longrightarrow>
          failed_unrecorded Save_failed (u '' Failed to save answer: '') w
            (tab_ask e question filename w))) \<and>
    failed_unrecorded Processing_failed (u '' Voice processing failed: '') w
      (tab_voice e (Some a) filename w)"
proof -
  have build: "history (snd (tab_build e prompt filename w)) = history w"
    if "strip prompt \<noteq> []"
    using tab_build_fault [OF that assms] tab_build_refused(3) [OF that]
    by (cases "displayable (completion_text e (build_messages prompt) zero_point_two)")
      (simp_all add: failed_unrecorded_def)
  have modify: "history (snd (tab_modify e base_code change_request filename w)) = history w"
    if "strip base_code \<noteq> []" and "strip change_request \<noteq> []"
    using tab_modify_fault [OF that assms] tab_modify_refused(3) [OF that]
    by (cases "displayable
          (completion_text e (modify_messages base_code change_request) zero_point_two)")
      (simp_all add: failed_unrecorded_def)
  have edit: "history (snd (tab_edit e content edit_request filename w)) = history w"
    if "strip content \<noteq> []" and "strip edit_request \<noteq> []"
    using tab_edit_fault [OF that assms] tab_edit_refused(3) [OF that]
    by (cases "displayable (completion_text e (edit_messages content edit_request)
          zero_point_two)")
      (simp_all add: failed_unrecorded_def)
  have ask: "history (snd (tab_ask e question filename w)) = history w"
    if "strip question \<noteq> []" and "strip filename \<noteq> []"
    using tab_ask_fault [OF that assms] tab_ask_refused(3) [OF that(1)]
    by (cases "displayable (completion_text e (ask_messages question) 0)")
      (simp_all add: failed_unrecorded_def)
  show ?thesis
    using assms build modify edit ask
    by (auto intro: tab_build_fault tab_modify_fault tab_edit_fault tab_ask_fault
        tab_voice_fault)
qed


lemma locked_fault:
  "write_fault locked_env (artifact_path locked_env (ticks empty_world) (u ''app.py'')) =
     Some (Open_fails (Exn OSError (u ''[Errno 13] Permission denied'')))"
  by (simp add: locked_env_def eval_defs)

lemma locked_completion: "completion_text locked_env messages temperature = u ''hi there''"
  by (simp add: completion_text_def ask_model_try_def locked_env_def example_env_def strip_def
      isspace_def u_def)

lemma hi_there_displayable: "displayable (u ''hi there'')"
  by (simp add: displayable_def utf8_char_def u_def)

lemma locked_voice_page:
  "page (snd (tab_voice locked_env (Some (u ''memo.wav'', [1, 2, 3])) (u ''app.py'')
          empty_world)) =
     [St_subheader (speaking_head @ u '' Transcript''), St_write (u ''hello''),
      St_subheader (speech_balloon @ u '' Response''), St_write (u ''hi there''),
      St_error (cross_mark @ u '' Voice processing failed: '' @
                u ''[Errno 13] Permission denied'')]"
  by (simp add: run_defs eval_defs locked_env_def)

text \<open>
  The runs of the five modes in an environment whose projects directory accepts the
  temporary copy of the upload and refuses the artifact: each reaches its saving step;
  in the Voice run the transcript and the reply are on the page before the error.
\<close>

theorem save_failure_not_recorded_witness:
  "failed_unrecorded Save_failed (u '' Failed to save file: '') empty_world
     (tab_build locked_env (u ''a clock'') (u ''app.py'') empty_world) \<and>
   failed_unrecorded Save_failed (u '' Failed to save file: '') empty_world
     (tab_modify locked_env (u ''x = 1'') (u ''add a test'') (u ''app.py'') empty_world) \<and>
   failed_unrecorded Save_failed (u '' Failed to save edited content: '') empty_world
     (tab_edit locked_env (u ''Dear all'') (u ''shorter'') (u ''app.py'') empty_world) \<and>
   failed_unrecorded Save_failed (u '' Failed to save answer: '') empty_world
     (tab_ask locked_env (u ''Why?'') (u ''app.py'') empty_world) \<and>
   failed_unrecorded Processing_failed (u '' Voice processing failed: '') empty_world
     (tab_voice locked_env (Some (u ''memo.wav'', [1, 2, 3])) (u ''app.py'') empty_world) \<and>
   page (snd (tab_voice locked_env (Some (u ''memo.wav'', [1, 2, 3])) (u ''app.py'')
          empty_world)) =
     [St_subheader (speaking_head @ u '' Transcript''), St_write (u ''hello''),
      St_subheader (speech_balloon @ u '' Response''), St_write (u ''hi there''),
      St_error (cross_mark @ u '' Voice processing failed: '' @
                u ''[Errno 13] Permission denied'')]"
proof -
  have ne: "strip (u ''a clock'') \<noteq> []" "strip (u ''x = 1'') \<noteq> []"
    "strip (u ''add a test'') \<noteq> []" "strip (u ''Dear all'') \<noteq> []"
    "strip (u ''shorter'') \<noteq> []" "strip (u ''Why?'') \<noteq> []" "strip (u ''app.py'') \<noteq> []"
    by (simp_all add: strip_def isspace_def u_def)
  have d: "displayable (completion_text locked_env messages temperature)"
    for messages temperature
    by (simp only: locked_completion hi_there_displayable)
  show ?thesis
    using save_failure_not_recorded [where e = locked_env and w = empty_world
        and filename = "u ''app.py''" and prompt = "u ''a clock''" and base_code = "u ''x = 1''"
        and change_request = "u ''add a test''" and content = "u ''Dear all''"
        and edit_request = "u ''shorter''" and question = "u ''Why?''"
        and a = "(u ''memo.wav'', [1, 2, 3])", OF locked_fault] ne d locked_voice_page
    by blast
qed

text \<open>
  C6. An Ask run with a question that is not blank and a target filename that is empty
  or white space only skips the saving branch: the files and the history are
  unchanged. The answer is shown when it can be: if it is displayable, the subheader
  and the answer are all that is added to the page and the run ends without saving; if
  it is not (it holds a lone surrogate), \<open>st.write\<close> raises, the subheader alone is
  added to the page and the exception leaves the block. Conversely, whenever an Ask
  run changes the files or the history, the target filename was not blank.
\<close>

theorem ask_without_filename:
  assumes "\<not> (\<forall>c\<in>set question. isspace c)"
  shows
   "((\<forall>c\<in>set filename4. isspace c) \<longrightarrow>
       files (snd (tab_ask e question filename4 w)) = files w \<and>
       history (snd (tab_ask e question filename4 w)) = history w \<and>
       (displayable (completion_text e (ask_messages question) 0) \<longrightarrow>
          fst (tab_ask e question filename4 w) = Not_saved \<and>
          page (snd (tab_ask e question filename4 w)) =
            page w @ [St_subheader (brain @ u '' Answer''),
                      St_write (completion_text e (ask_messages question) 0)]) \<and>
       (\<not> displayable (completion_text e (ask_messages question) 0) \<longrightarrow>
          fst (tab_ask e question filename4 w) =
            Uncaught (display_error e (completion_text e (ask_messages question) 0)) \<and>
          page (snd (tab_ask e question filename4 w)) =
            page w @ [St_subheader (brain @ u '' Answer'')])) \<and>
    (files (snd (tab_ask e question filename4 w)) \<noteq> files w \<or>
     history (snd (tab_ask e question filename4 w)) \<noteq> history w \<longrightarrow>
       \<not> (\<forall>c\<in>set filename4. isspace c))"
proof -
  let ?answer = "completion_text e (ask_messages question) 0"
  let ?r = "tab_ask e question filename4 w"
  have q: "strip question \<noteq> []"
    using assms by (simp add: strip_empty_iff)
  have shown: "fst ?r = Not_saved \<and>
       page (snd ?r) = page w @ [St_subheader (brain @ u '' Answer''), St_write ?answer] \<and>
       files (snd ?r) = files w \<and> history (snd ?r) = history w"
    if "strip filename4 = []" and "displayable ?answer"
    using q that
    by (simp add: tab_ask_def ask_model_eq st_write_displayable render_simps)
  have refused: "fst ?r = Uncaught (display_error e ?answer) \<and>
       page (snd ?r) = page w @ [St_subheader (brain @ u '' Answer'')] \<and>
       files (snd ?r) = files w \<and> history (snd ?r) = history w"
    if "\<not> displayable ?answer"
    using q that
    by (simp add: tab_ask_def ask_model_eq st_write_refused render_simps)
  have "strip filename4 = []" if "\<forall>c\<in>set filename4. isspace c"
    using that by (simp add: strip_empty_iff)
  with shown refused show ?thesis
    by blast
qed

lemma surrogate_completion:
  "completion_text surrogate_env (ask_messages (u ''Why?'')) 0 = [0x61, 0xD800]"
  by (simp add: completion_text_def ask_model_try_def surrogate_env_def example_env_def
      strip_def isspace_def)

lemma surrogate_refused: "\<not> displayable [0x61, 0xD800]"
  by (simp add: displayable_def utf8_char_def surrogate_def)

text \<open>
  The question \<open>"Why?"\<close> with the filename \<open>" "\<close>: in the working environment the
  answer \<open>"hi there"\<close> is shown and nothing is saved; where the service answers with a
  text that ends in a lone surrogate, nothing is saved either.
\<close>

theorem ask_without_filename_witness:
  "fst (tab_ask example_env (u ''Why?'') (u '' '') empty_world) = Not_saved \<and>
   page (snd (tab_ask example_env (u ''Why?'') (u '' '') empty_world)) =
     [St_subheader (brain @ u '' Answer''), St_write (u ''hi there'')] \<and>
   files (snd (tab_ask example_env (u ''Why?'') (u '' '') empty_world)) = Map.empty \<and>
   history (snd (tab_ask example_env (u ''Why?'') (u '' '') empty_world)) = [] \<and>
   files (snd (tab_ask surrogate_env (u ''Why?'') (u '' '') empty_world)) = Map.empty \<and>
   history (snd (tab_ask surrogate_env (u ''Why?'') (u '' '') empty_world)) = []"
proof -
  have q: "\<not> (\<forall>c\<in>set (u ''Why?''). isspace c)" and f: "\<forall>c\<in>set (u '' ''). isspace c"
    by (simp_all add: isspace_def u_def)
  have c: "completion_text example_env (ask_messages (u ''Why?'')) 0 = u ''hi there''"
    by (simp add: completion_text_def ask_model_try_def example_env_def strip_def isspace_def
        u_def)
  have d: "displayable (completion_text example_env (ask_messages (u ''Why?'')) 0)"
    by (simp only: c hi_there_displayable)
  have "fst (tab_ask example_env (u ''Why?'') (u '' '') empty_world) = Not_saved \<and>
     page (snd (tab_ask example_env (u ''Why?'') (u '' '') empty_world)) =
       [St_subheader (brain @ u '' Answer''), St_write (u ''hi there'')] \<and>
     files (snd (tab_ask example_env (u ''Why?'') (u '' '') empty_world)) = Map.empty \<and>
     history (snd (tab_ask example_env (u ''Why?'') (u '' '') empty_world)) = []"
    using ask_without_filename [OF q, of "u '' ''" example_env empty_world] f d
    by (simp add: c empty_world_def)
  moreover have
    "files (snd (tab_ask surrogate_env (u ''Why?'') (u '' '') empty_world)) = Map.empty \<and>
     history (snd (tab_ask surrogate_env (u ''Why?'') (u '' '') empty_world)) = []"
    using ask_without_filename [OF q, of "u '' ''" surrogate_env empty_world] f
    by (simp add: empty_world_def)
  ultimately show ?thesis
    by simp
qed

text \<open>
  The claim as the specification words it has the answer displayed in every such run.
  Where the completion service answers \<open>"a"\<close> followed by the lone surrogate \<open>U+D800\<close>,
  the run with the question \<open>"Why?"\<close> and no target filename passes its validation,
  \<open>ask_model\<close> returns that text, and \<open>st.write\<close> raises: the run ends with the
  exception of that call, and the page holds the subheader and no answer.
\<close>

theorem ask_without_filename_counterexample:
  "strip (u ''Why?'') = u ''Why?'' \<and> strip [] = [] \<and>
   fst (ask_model surrogate_env (ask_messages (u ''Why?'')) 0 empty_world) =
     Inr [0x61, 0xD800] \<and>
   fst (tab_ask surrogate_env (u ''Why?'') [] empty_world) =
     Uncaught (display_error surrogate_env [0x61, 0xD800]) \<and>
   page (snd (tab_ask surrogate_env (u ''Why?'') [] empty_world)) =
     [St_subheader (brain @ u '' Answer'')] \<and>
   St_write [0x61, 0xD800] \<notin>
     set (page (snd (tab_ask surrogate_env (u ''Why?'') [] empty_world)))"
proof -
  have s: "strip (u ''Why?'') = u ''Why?''" "strip [] = []"
    by (simp_all add: strip_def isspace_def u_def)
  have a: "fst (ask_model surrogate_env (ask_messages (u ''Why?'')) 0 empty_world) =
      Inr [0x61, 0xD800]"
    by (simp add: ask_model_eq surrogate_completion)
  have p: "page empty_world = []"
    by (simp add: empty_world_def)
  have q: "strip (u ''Why?'') \<noteq> []"
    by (simp add: strip_def isspace_def u_def)
  have r: "fst (tab_ask surrogate_env (u ''Why?'') [] empty_world) =
      Uncaught (display_error surrogate_env [0x61, 0xD800])"
    "page (snd (tab_ask surrogate_env (u ''Why?'') [] empty_world)) =
      [St_subheader (brain @ u '' Answer'')]"
    using q
    by (simp_all add: tab_ask_def ask_model_eq surrogate_completion
        st_write_refused [OF surrogate_refused] render_simps p)
  show ?thesis
    using s a r by simp
qed

text \<open>
  C7. In every Voice run that ends in its saving branch, the transcription service
  returned a text, the transcript \<open>t\<close> is that text stripped, the reply \<open>r\<close> is what
  \<open>ask_model\<close> returns for the transcript, and the artifact at the recorded path reads
  back as \<open>"Transcript:\n" + t + "\n\nResponse:\n" + r\<close>. For the transcript
  \<open>"hello"\<close> and the reply \<open>"hi there"\<close> this is
  \<open>"Transcript:\nhello\n\nResponse:\nhi there"\<close>.
\<close>

theorem voice_artifact_content:
  assumes "tab_voice e (Some a) filename5 w = (Saved p, w')"
  shows "\<exists>text t r.
     audio_transcriptions_create e (u ''whisper-1'') (snd a) = Inr text \<and> t = strip text \<and>
     (\<forall>w0. fst (ask_model e (voice_messages t) zero_point_two w0) = Inr r) \<and>
     read_text w' p =
       Some (u ''Transcript:\<newline>'' @ t @ u ''\<newline>\<newline>Response:\<newline>'' @ r)"
proof -
  have "tab_voice_try e a filename5 w = (Inr p, w')"
    using assms by (simp add: tab_voice_Saved)
  then obtain heard bs where
    tr: "audio_transcriptions_create e (u ''whisper-1'') (snd a) = Inr heard" and
    enc: "utf8_encode (combined_of (strip heard)
        (completion_text e (voice_messages (strip heard)) zero_point_two)) = Some bs" and
    f: "files w' p = Some bs"
    using voice_try_Inr by blast
  have "read_text w' p = Some (combined_of (strip heard)
        (completion_text e (voice_messages (strip heard)) zero_point_two))"
    using enc f by (rule read_text_written)
  then show ?thesis
    using tr by (auto simp: ask_model_eq combined_of_def)
qed

lemma example_voice:
  "fst (tab_voice example_env (Some (u ''note.wav'', [1, 2, 3])) (u ''transcript.txt'')
          empty_world) =
     Saved (u ''/srv/app/projects/20261103_070500_transcript.txt.py'')"
  by (simp add: run_defs eval_defs)

theorem voice_artifact_content_witness:
  "read_text
     (snd (tab_voice example_env (Some (u ''note.wav'', [1, 2, 3])) (u ''transcript.txt'')
        empty_world))
     (u ''/srv/app/projects/20261103_070500_transcript.txt.py'') =
   Some (u ''Transcript:\<newline>hello\<newline>\<newline>Response:\<newline>hi there'')"
proof -
  have t: "audio_transcriptions_create example_env (u ''whisper-1'') [1, 2, 3] = Inr (u ''hello '')"
    by (simp add: example_env_def)
  have s: "strip (u ''hello '') = u ''hello''"
    by (simp add: strip_def isspace_def u_def)
  have r: "fst (ask_model example_env (voice_messages (u ''hello'')) zero_point_two empty_world) =
      Inr (u ''hi there'')"
    by (simp add: ask_model_def ask_model_try_def example_env_def strip_def isspace_def u_def)
  show ?thesis
    using voice_artifact_content [OF pairI [OF example_voice]] t s r
    by (auto simp: u_def)
qed

subsection \<open>The temporary audio copy\<close>

lemma voice_failure_keeps_temp:
  assumes "tab_voice e (Some a) f w = (Processing_failed x, w')"
      and "write_fault e (temp_path_of e a) = None"
  shows "files w' (temp_path_of e a) = Some (snd a)"
proof -
  obtain w1 where t: "tab_voice_try e a f w = (Inl x, w1)" and fw: "files w' = files w1"
    using tab_voice_Processing_failed [OF assms(1)] by blast
  show ?thesis
    using voice_try_Inl [OF t] assms(2) fw by simp
qed

lemma voice_success_removes_temp:
  assumes "tab_voice e (Some a) f w = (Saved p, w')"
      and "remove_fault e (temp_path_of e a) = None"
  shows "files w' (temp_path_of e a) = None"
proof -
  have "tab_voice_try e a f w = (Inr p, w')"
    using assms(1) by (simp add: tab_voice_Saved)
  then show ?thesis
    using voice_try_Inr assms(2) by blast
qed

text \<open>
  C8. The specification has the temporary audio copy removed before the run ends,
  whether or not the later steps succeed. In the code the removal is the last statement of the
  \<open>try\<close> body, so a run whose transcription raises keeps the copy: in the example the
  transcription service fails, nothing would stop \<open>os.remove\<close>, and after the run the
  temporary file still holds the uploaded bytes; in the run that succeeds the file is
  gone. The two lemmas above state the same for every run.
\<close>

theorem voice_failure_leaves_temp_file:
  "fst (tab_voice deaf_env (Some (u ''note.wav'', [1, 2, 3])) (u ''transcript.txt'')
          empty_world) = Processing_failed (Exn APIError (u ''Connection error.'')) \<and>
   remove_fault deaf_env (u ''/srv/app/projects/temp_note.wav'') = None \<and>
   files (snd (tab_voice deaf_env (Some (u ''note.wav'', [1, 2, 3])) (u ''transcript.txt'')
          empty_world)) (u ''/srv/app/projects/temp_note.wav'') = Some [1, 2, 3] \<and>
   files (snd (tab_voice example_env (Some (u ''note.wav'', [1, 2, 3])) (u ''transcript.txt'')
          empty_world)) (u ''/srv/app/projects/temp_note.wav'') = None"
  by (simp add: run_defs eval_defs deaf_env_def)

subsection \<open>When the completion call fails\<close>


















end
